theory Spec2Isabelle
  imports Complex_Main "HOL-Library.While_Combinator"
begin

section \<open>Common values\<close>

text \<open>
  The exceptions the modelled code can raise: the \<^verbatim>\<open>TypeError\<close> JavaScript raises when a
  property of \<^verbatim>\<open>undefined\<close> is read (an array read out of range yields \<^verbatim>\<open>undefined\<close>), and
  an \<^verbatim>\<open>Error\<close> carrying its message.
\<close>

datatype error = TypeError | Error string

section \<open>The interactive layout overlay (interactiveView)\<close>

subsection \<open>Data\<close>

text \<open>
  \<^verbatim>\<open>KNode\<close> and \<^verbatim>\<open>Layer\<close> are the classes of \<^verbatim>\<open>constraint-classes\<close>, with the fields the
  rendering code reads and writes. Coordinates are numbers, taken as reals; layer and position
  ids and constraints are integers, \<open>-1\<close> meaning that no constraint is set. The field
  \<^verbatim>\<open>size\<close> is named \<open>sizeK\<close> here. Nodes are objects: a node is a reference into a heap
  of \<^verbatim>\<open>KNode\<close> values, so that the assignments to the root's fields and the nodes the other
  references see are the same objects. The children of a node are references too;
  \<^verbatim>\<open>filterKNodes\<close> keeps those that are \<^verbatim>\<open>KNode\<close>s.
\<close>

record Point =
  point_x :: real
  point_y :: real

record Dimension =
  width :: real
  height :: real

type_synonym ref = nat

record KNode =
  children :: "ref list"
  selected :: bool
  layerId :: int
  posId :: int
  layerCons :: int
  posCons :: int
  position :: Point
  sizeK :: Dimension
  hierWidth :: real
  hierHeight :: real

type_synonym heap = "ref \<Rightarrow> KNode"

record Layer =
  leftX :: real
  rightX :: real
  mid :: real
  topY :: real
  botY :: real

text \<open>
  A virtual-DOM node. \<open>G\<close> is the JSX element \<^verbatim>\<open><g>...</g>\<close> with its children in order and
  \<open>Text\<close> a text child. The shapes of \<^verbatim>\<open>interactiveView-objects\<close> (\<^verbatim>\<open>createRect\<close>,
  \<^verbatim>\<open>createVerticalLine\<close>, \<^verbatim>\<open>createCircle\<close>, \<^verbatim>\<open>lock\<close>, \<^verbatim>\<open>arrow\<close>) are not part of the
  rendering file: the node each call returns is represented by the call itself, a constructor
  holding the arguments in the call's order.
\<close>

datatype VNode =
    G "VNode list"
  | Text string
  | Rect real real real real bool bool
  | VerticalLine real real real
  | Circle bool real real bool
  | Lock real real
  | Arrow real real bool

text \<open>
  The functions imported from \<^verbatim>\<open>constraint-utils\<close> are parameters of the rendering code:
  their bodies are not part of the rendering file. Each one reads the heap it is given and
  returns a value; none writes a node or reorders the array it is given. A number they return
  that is used as an index (a layer, a position) is an integer.
\<close>

record constraint_utils =
  filterKNodes :: "heap \<Rightarrow> ref list \<Rightarrow> ref list"
  getSelectedNode :: "heap \<Rightarrow> ref list \<Rightarrow> ref option"
  getLayers :: "heap \<Rightarrow> ref list \<Rightarrow> Layer list"
  getLayerOfNode :: "heap \<Rightarrow> ref \<Rightarrow> ref list \<Rightarrow> Layer list \<Rightarrow> int"
  isLayerForbidden :: "heap \<Rightarrow> ref \<Rightarrow> int \<Rightarrow> bool"
  shouldOnlyLCBeSet :: "heap \<Rightarrow> ref \<Rightarrow> Layer list \<Rightarrow> bool"
  getNodesOfLayer :: "heap \<Rightarrow> int \<Rightarrow> ref list \<Rightarrow> ref list"
  getPosInLayer :: "heap \<Rightarrow> ref list \<Rightarrow> ref option \<Rightarrow> int"

subsection \<open>renderPositions\<close>

text \<open>\<^verbatim>\<open>layers[i]\<close>: \<^verbatim>\<open>undefined\<close> out of range.\<close>

definition layer_at :: "Layer list \<Rightarrow> int \<Rightarrow> Layer option" where
  "layer_at layers i =
     (if 0 \<le> i \<and> i < int (length layers) then Some (layers ! nat i) else None)"

text \<open>
  \<^verbatim>\<open>let target = nodes[0]; for (let node of nodes) { if (node.selected) { target = node } }\<close>:
  the last selected node, the first node when none is selected, \<^verbatim>\<open>undefined\<close> for no node.
\<close>

definition select_target :: "heap \<Rightarrow> ref list \<Rightarrow> ref option" where
  "select_target h nodes =
     foldl (\<lambda>target node. if selected (h node) then Some node else target)
       (case nodes of [] \<Rightarrow> None | n # _ \<Rightarrow> Some n) nodes"

text \<open>
  The loop over \<open>i = 0 ..< layerNodes.length - 1\<close>: the list argument is \<open>layerNodes\<close> from
  index \<open>i\<close> on, the pair is \<open>(result, shift)\<close>.
\<close>

fun positions_loop ::
  "heap \<Rightarrow> ref list \<Rightarrow> nat \<Rightarrow> int \<Rightarrow> real \<Rightarrow> bool \<Rightarrow> VNode \<times> int \<Rightarrow> VNode \<times> int" where
  "positions_loop h (node # next # rest) i curPos xm forbidden (result, shift) =
     positions_loop h (next # rest) (Suc i) curPos xm forbidden
       (if \<not> selected (h node) \<and> \<not> selected (h next) then
          (let tY = point_y (position (h node)) + height (sizeK (h node));
               bY = point_y (position (h next));
               midY = tY + (bY - tY) / 2
           in (G [result, Circle (curPos = int i + shift) xm midY forbidden], shift))
        else (result, 0))"
| "positions_loop h layerNodes i curPos xm forbidden acc = acc"

text \<open>
  \<open>renderPositions\<close>. The position of the target is asked for before the nodes of the layer
  are sorted; \<^verbatim>\<open>layerNodes.sort((a, b) => a.posId - b.posId)\<close> is a stable sort by
  \<open>posId\<close>. \<^verbatim>\<open>layers[current]\<close> is read only when the layer has a node, and the last
  layer only when it has none.
\<close>

definition renderPositions ::
  "constraint_utils \<Rightarrow> heap \<Rightarrow> int \<Rightarrow> ref list \<Rightarrow> Layer list \<Rightarrow> bool \<Rightarrow> error + VNode" where
  "renderPositions U h current nodes layers forbidden =
     (let unsorted = getNodesOfLayer U h current nodes;
          target = select_target h nodes;
          curPos = getPosInLayer U h unsorted target;
          layerNodes = sort_key (\<lambda>n. posId (h n)) unsorted
      in if length layerNodes > 0 then
           (case layer_at layers current of
              None \<Rightarrow> Inl TypeError
            | Some cl \<Rightarrow>
                (let xm = mid cl;
                     (result, shift) = positions_loop h layerNodes 0 curPos xm forbidden (G [], 1);
                     first = hd layerNodes;
                     result =
                       (if \<not> selected (h first) then
                          G [result, Circle (curPos = 0) xm
                               (topY cl + (point_y (position (h first)) - topY cl) / 2) forbidden]
                        else result);
                     lastN = last layerNodes;
                     result =
                       (if \<not> selected (h lastN) then
                          G [result, Circle (curPos = int (length layerNodes) - 1 + shift) xm
                               (botY cl - (botY cl - (point_y (position (h lastN))
                                  + height (sizeK (h lastN)))) / 2) forbidden]
                        else result)
                 in Inr result))
         else
           (case layers of
              [] \<Rightarrow> Inl TypeError
            | _ # _ \<Rightarrow>
                (let lastL = last layers;
                     xm = mid lastL + (rightX lastL - leftX lastL);
                     ym = topY lastL + (botY lastL - topY lastL) / 2
                 in Inr (G [Circle True xm ym forbidden]))))"

subsection \<open>renderLayer and renderInteractiveLayout\<close>

text \<open>
  The loop over the layers: the list argument is \<open>layers\<close> from index \<open>i\<close> on.
\<close>

fun layers_loop ::
  "Layer list \<Rightarrow> nat \<Rightarrow> int \<Rightarrow> real \<Rightarrow> real \<Rightarrow> bool \<Rightarrow> bool \<Rightarrow> VNode \<Rightarrow> VNode" where
  "layers_loop [] i currentLayer tY bY forbidden onlyLC result = result"
| "layers_loop (layer # rest) i currentLayer tY bY forbidden onlyLC result =
     layers_loop rest (Suc i) currentLayer tY bY forbidden onlyLC
       (if int i = currentLayer then
          G [result, Rect (leftX layer) tY (rightX layer - leftX layer) (bY - tY) forbidden onlyLC]
        else G [result, VerticalLine (mid layer) tY bY])"

text \<open>
  Whether the new empty last layer is shown:
  \<^verbatim>\<open>lastLNodes.length !== 1 || !lastLNodes[0].selected\<close>.
\<close>

definition shows_new_layer :: "heap \<Rightarrow> ref list \<Rightarrow> bool" where
  "shows_new_layer h lastLNodes = (length lastLNodes \<noteq> 1 \<or> \<not> selected (h (hd lastLNodes)))"

text \<open>The two assignments to the root: \<^verbatim>\<open>root.hierHeight\<close> and \<^verbatim>\<open>root.hierWidth\<close>.\<close>

definition set_hier_bounds :: "heap \<Rightarrow> ref \<Rightarrow> real \<Rightarrow> real \<Rightarrow> heap" where
  "set_hier_bounds h rt hh hw = h(rt := (h rt)\<lparr>hierHeight := hh, hierWidth := hw\<rparr>)"

text \<open>
  \<open>renderLayer\<close> returns what the call yields (the node, or the exception raised) and the heap
  it leaves (\<open>rt\<close> is the reference of the root): an exception raised in \<open>renderPositions\<close> comes after the assignments to the root.
\<close>

definition renderLayer ::
  "constraint_utils \<Rightarrow> heap \<Rightarrow> ref list \<Rightarrow> ref \<Rightarrow> (error + VNode) \<times> heap" where
  "renderLayer U h nodes rt =
     (case getSelectedNode U h nodes of
        None \<Rightarrow> (Inr (G []), h)
      | Some selNode \<Rightarrow>
          (let layers = getLayers U h nodes;
               currentLayer = getLayerOfNode U h selNode nodes layers;
               forbidden = isLayerForbidden U h selNode currentLayer
           in case layers of
                [] \<Rightarrow> (Inl TypeError, h)
              | l0 # _ \<Rightarrow>
                  (let tY = topY l0;
                       bY = botY l0;
                       rX = rightX (last layers);
                       onlyLC = (shouldOnlyLCBeSet U h selNode layers
                                  \<and> layerId (h selNode) \<noteq> currentLayer);
                       result = layers_loop layers 0 currentLayer tY bY forbidden onlyLC (G []);
                       lastL = last layers;
                       lastLNodes = getNodesOfLayer U h (int (length layers) - 1) nodes;
                       (rX, result) =
                         (if shows_new_layer h lastLNodes then
                            (rightX lastL + rightX lastL - leftX lastL,
                             if currentLayer = int (length layers) then
                               G [result, Rect (rightX lastL) tY (rightX lastL - leftX lastL)
                                    (bY - tY) forbidden onlyLC]
                             else
                               G [result, VerticalLine (mid lastL + (rightX lastL - leftX lastL))
                                    tY bY])
                          else (rX, result));
                       h' = set_hier_bounds h rt (height (sizeK (h rt)))
                              (rX - leftX l0 + 10)
                   in if \<not> onlyLC then
                        (case renderPositions U h' currentLayer nodes layers forbidden of
                           Inl e \<Rightarrow> (Inl e, h')
                         | Inr positions \<Rightarrow> (Inr (G [result, positions]), h'))
                      else (Inr result, h'))))"

definition renderInteractiveLayout ::
  "constraint_utils \<Rightarrow> heap \<Rightarrow> ref \<Rightarrow> (error + VNode) \<times> heap" where
  "renderInteractiveLayout U h rt =
     (let nodes = filterKNodes U h (children (h rt))
      in case renderLayer U h nodes rt of
           (Inl e, h') \<Rightarrow> (Inl e, h')
         | (Inr layer, h') \<Rightarrow> (Inr (G [layer]), h'))"

subsection \<open>The loops as they run\<close>

text \<open>
  The same computation with its loops written as the code runs them: a while loop over the
  index \<open>i\<close>, the condition tested before each pass. The result of a loop is \<open>None\<close> when it
  never ends; when it ends, the index it ends with is the number of passes it made. The three
  loops are the one over the layers in \<open>renderLayer\<close>, and in \<open>renderPositions\<close> the one over
  the nodes that finds the selected node and the one over the nodes of the current layer
  (\<^verbatim>\<open>i < layerNodes.length - 1\<close>).
\<close>

definition layers_for ::
  "Layer list \<Rightarrow> int \<Rightarrow> real \<Rightarrow> real \<Rightarrow> bool \<Rightarrow> bool \<Rightarrow> (nat \<times> VNode) option" where
  "layers_for layers currentLayer tY bY forbidden onlyLC =
     while_option (\<lambda>(i, result). i < length layers)
       (\<lambda>(i, result).
          (let layer = layers ! i
           in (Suc i,
               if int i = currentLayer then
                 G [result, Rect (leftX layer) tY (rightX layer - leftX layer) (bY - tY)
                      forbidden onlyLC]
               else G [result, VerticalLine (mid layer) tY bY])))
       (0, G [])"

definition target_for :: "heap \<Rightarrow> ref list \<Rightarrow> (nat \<times> ref option) option" where
  "target_for h nodes =
     while_option (\<lambda>(i, target). i < length nodes)
       (\<lambda>(i, target).
          (let node = nodes ! i
           in (Suc i, if selected (h node) then Some node else target)))
       (0, case nodes of [] \<Rightarrow> None | n # _ \<Rightarrow> Some n)"

definition positions_for ::
  "heap \<Rightarrow> ref list \<Rightarrow> int \<Rightarrow> real \<Rightarrow> bool \<Rightarrow> (nat \<times> VNode \<times> int) option" where
  "positions_for h layerNodes curPos xm forbidden =
     while_option (\<lambda>(i, result, shift). int i < int (length layerNodes) - 1)
       (\<lambda>(i, result, shift).
          (let node = layerNodes ! i;
               next = layerNodes ! (i + 1)
           in if \<not> selected (h node) \<and> \<not> selected (h next) then
                (let tY = point_y (position (h node)) + height (sizeK (h node));
                     bY = point_y (position (h next));
                     midY = tY + (bY - tY) / 2
                 in (Suc i, G [result, Circle (curPos = int i + shift) xm midY forbidden], shift))
              else (Suc i, result, 0)))
       (0, G [], 1)"

text \<open>
  \<open>renderPositions\<close>, \<open>renderLayer\<close> and \<open>renderInteractiveLayout\<close> over these loops. Each
  returns \<open>None\<close> when a loop never ends, and otherwise what the call yields together with
  the number of passes its loops made.
\<close>

definition renderPositions_run ::
  "constraint_utils \<Rightarrow> heap \<Rightarrow> int \<Rightarrow> ref list \<Rightarrow> Layer list \<Rightarrow> bool
     \<Rightarrow> ((error + VNode) \<times> nat) option" where
  "renderPositions_run U h current nodes layers forbidden =
     (let unsorted = getNodesOfLayer U h current nodes
      in case target_for h nodes of
           None \<Rightarrow> None
         | Some (n1, target) \<Rightarrow>
             (let curPos = getPosInLayer U h unsorted target;
                  layerNodes = sort_key (\<lambda>n. posId (h n)) unsorted
              in if length layerNodes > 0 then
                   (case layer_at layers current of
                      None \<Rightarrow> Some (Inl TypeError, n1)
                    | Some cl \<Rightarrow>
                        (let xm = mid cl
                         in case positions_for h layerNodes curPos xm forbidden of
                              None \<Rightarrow> None
                            | Some (n2, result, shift) \<Rightarrow>
                                (let first = hd layerNodes;
                                     result =
                                       (if \<not> selected (h first) then
                                          G [result, Circle (curPos = 0) xm
                                               (topY cl + (point_y (position (h first)) - topY cl) / 2)
                                               forbidden]
                                        else result);
                                     lastN = last layerNodes;
                                     result =
                                       (if \<not> selected (h lastN) then
                                          G [result,
                                             Circle (curPos = int (length layerNodes) - 1 + shift) xm
                                               (botY cl - (botY cl - (point_y (position (h lastN))
                                                  + height (sizeK (h lastN)))) / 2) forbidden]
                                        else result)
                                 in Some (Inr result, n1 + n2))))
                 else
                   (case layers of
                      [] \<Rightarrow> Some (Inl TypeError, n1)
                    | _ # _ \<Rightarrow>
                        (let lastL = last layers;
                             xm = mid lastL + (rightX lastL - leftX lastL);
                             ym = topY lastL + (botY lastL - topY lastL) / 2
                         in Some (Inr (G [Circle True xm ym forbidden]), n1)))))"

definition renderLayer_run ::
  "constraint_utils \<Rightarrow> heap \<Rightarrow> ref list \<Rightarrow> ref \<Rightarrow> (((error + VNode) \<times> heap) \<times> nat) option" where
  "renderLayer_run U h nodes rt =
     (case getSelectedNode U h nodes of
        None \<Rightarrow> Some ((Inr (G []), h), 0)
      | Some selNode \<Rightarrow>
          (let layers = getLayers U h nodes;
               currentLayer = getLayerOfNode U h selNode nodes layers;
               forbidden = isLayerForbidden U h selNode currentLayer
           in case layers of
                [] \<Rightarrow> Some ((Inl TypeError, h), 0)
              | l0 # _ \<Rightarrow>
                  (let tY = topY l0;
                       bY = botY l0;
                       rX = rightX (last layers);
                       onlyLC = (shouldOnlyLCBeSet U h selNode layers
                                  \<and> layerId (h selNode) \<noteq> currentLayer)
                   in case layers_for layers currentLayer tY bY forbidden onlyLC of
                        None \<Rightarrow> None
                      | Some (n1, result) \<Rightarrow>
                          (let lastL = last layers;
                               lastLNodes = getNodesOfLayer U h (int (length layers) - 1) nodes;
                               (rX, result) =
                                 (if shows_new_layer h lastLNodes then
                                    (rightX lastL + rightX lastL - leftX lastL,
                                     if currentLayer = int (length layers) then
                                       G [result, Rect (rightX lastL) tY (rightX lastL - leftX lastL)
                                            (bY - tY) forbidden onlyLC]
                                     else
                                       G [result,
                                          VerticalLine (mid lastL + (rightX lastL - leftX lastL))
                                            tY bY])
                                  else (rX, result));
                               h' = set_hier_bounds h rt (height (sizeK (h rt)))
                                      (rX - leftX l0 + 10)
                           in if \<not> onlyLC then
                                (case renderPositions_run U h' currentLayer nodes layers forbidden of
                                   None \<Rightarrow> None
                                 | Some (Inl e, n2) \<Rightarrow> Some ((Inl e, h'), n1 + n2)
                                 | Some (Inr positions, n2) \<Rightarrow>
                                     Some ((Inr (G [result, positions]), h'), n1 + n2))
                              else Some ((Inr result, h'), n1)))))"

definition renderInteractiveLayout_run ::
  "constraint_utils \<Rightarrow> heap \<Rightarrow> ref \<Rightarrow> (((error + VNode) \<times> heap) \<times> nat) option" where
  "renderInteractiveLayout_run U h rt =
     (let nodes = filterKNodes U h (children (h rt))
      in case renderLayer_run U h nodes rt of
           None \<Rightarrow> None
         | Some ((Inl e, h'), n) \<Rightarrow> Some ((Inl e, h'), n)
         | Some ((Inr layer, h'), n) \<Rightarrow> Some ((Inr (G [layer]), h'), n))"

subsection \<open>renderConstraints\<close>

text \<open>
  The icons of a layer constraint and of a position constraint. The blank between
  \<^verbatim>\<open><g>\<close> and the first child on the same line is a text child of the group.
\<close>

definition layerCons_icon :: "real \<Rightarrow> real \<Rightarrow> VNode" where
  "layerCons_icon xc yc = G [Text '' '', Lock xc yc, Arrow (xc - 2.15) (yc + 2.6) False]"

definition posCons_icon :: "real \<Rightarrow> real \<Rightarrow> VNode" where
  "posCons_icon xc yc = G [Text '' '', Lock xc yc, Arrow (xc + 0.1) (yc + 2.5) True]"

definition renderConstraints :: "KNode \<Rightarrow> VNode" where
  "renderConstraints node =
     (let result = G [];
          xc = (if hierWidth node \<noteq> 0 then hierWidth node else width (sizeK node));
          yc = 0
      in if layerCons node \<noteq> -1 \<and> posCons node \<noteq> -1 then G [result, Lock xc yc]
         else if layerCons node \<noteq> -1 then G [result, layerCons_icon (xc + 2) (yc - 2)]
         else if posCons node \<noteq> -1 then G [result, posCons_icon (xc + 2) (yc - 2)]
         else result)"

section \<open>The diagram manager (keith-diagram-manager)\<close>

subsection \<open>Data\<close>

text \<open>
  A JavaScript object is a map from its property names to values; a property that is not set
  reads \<open>None\<close>. An optional argument that is left out is \<open>None\<close>.
\<close>

datatype jsval =
    JUndefined
  | JNull
  | JBool bool
  | JNum real
  | JStr string
  | JObj "(string \<times> jsval) list"

type_synonym obj = "string \<rightharpoonup> jsval"

datatype URI = URI string

record EditorWidget =
  getResourceUri :: "URI option"

text \<open>
  What a promise settles to. The callback of \<^verbatim>\<open>then\<close> runs when the promise is fulfilled, and
  only then.
\<close>

datatype 'a promise = Pending | Fulfilled 'a | Rejected error

record ('o, 'di, 'conn) KeithDiagramWidget =
  widget_options :: 'o
  widget_clientId :: string
  widget_diContainer :: 'di
  widget_connector :: 'conn

text \<open>A diagram widget is a \<^verbatim>\<open>KeithDiagramWidget\<close> or a widget of another class.\<close>

datatype 'k DiagramWidget = KeithWidget 'k | OtherWidget

text \<open>
  The calls the manager makes that can be seen from outside it, in the order they are made:
  the entry into \<^verbatim>\<open>drawDiagram\<close>, the call of the base class's \<^verbatim>\<open>open\<close>, the firing of
  \<^verbatim>\<open>onDiagramOpenedEmitter\<close> and the call of \<^verbatim>\<open>reInitialize\<close> on a widget.
\<close>

datatype 'k event =
    DrawDiagram URI
  | SuperOpen URI obj
  | DiagramOpened URI
  | ReInitialize 'k URI

text \<open>
  The base class \<^verbatim>\<open>DiagramManager\<close> of sprotty-theia is a parameter: its \<^verbatim>\<open>open\<close> (given as
  what the promise it returns settles to) and its \<^verbatim>\<open>createWidgetOptions\<close>.
\<close>

record 'k diagram_manager_base =
  super_open :: "URI \<Rightarrow> obj \<Rightarrow> 'k DiagramWidget promise"
  super_createWidgetOptions :: "URI \<Rightarrow> obj option \<Rightarrow> obj"

text \<open>
  What \<^verbatim>\<open>createWidget\<close> calls outside the manager. Each call returns a value or raises an
  exception (\<open>Inl\<close>):
  \<^item> \<^verbatim>\<open>DiagramWidgetOptions.is(options)\<close>, given by whether what it returns is truthy;
  \<^item> the read of \<^verbatim>\<open>options.diagramType\<close>;
  \<^item> \<^verbatim>\<open>JSON.stringify(options)\<close>, which yields a string or \<^verbatim>\<open>undefined\<close> and raises a
    \<^verbatim>\<open>TypeError\<close> on a circular value;
  \<^item> the configuration registry's \<^verbatim>\<open>get\<close>, which may hold no configuration for a type;
  \<^item> a configuration's \<^verbatim>\<open>createContainer\<close>;
  \<^item> the manager's connector, a field.
\<close>

record ('o, 'dt, 'cfg, 'di, 'conn) widget_env =
  is_DiagramWidgetOptions :: "'o \<Rightarrow> error + bool"
  options_diagramType :: "'o \<Rightarrow> error + 'dt"
  JSON_stringify :: "'o \<Rightarrow> error + string option"
  registry_get :: "'dt \<Rightarrow> error + 'cfg option"
  createContainer :: "'cfg \<Rightarrow> string \<Rightarrow> error + 'di"
  diagramConnector :: "'conn"

subsection \<open>Operations\<close>

text \<open>The spread \<^verbatim>\<open>{...input}\<close> of an optional object: no property when it is left out.\<close>

definition spread :: "obj option \<Rightarrow> obj" where
  "spread input = (case input of None \<Rightarrow> Map.empty | Some m \<Rightarrow> m)"

text \<open>\<^verbatim>\<open>open(uri, input?)\<close>: the promise returned and the calls made.\<close>

definition manager_open ::
  "'k diagram_manager_base \<Rightarrow> URI \<Rightarrow> obj option \<Rightarrow> 'k DiagramWidget promise \<times> 'k event list" where
  "manager_open B uri input =
     (let opts = (spread input)(''mode'' \<mapsto> JStr ''reveal'');
          widgetPromise = super_open B uri opts
      in (widgetPromise,
          SuperOpen uri opts #
            (case widgetPromise of Fulfilled _ \<Rightarrow> [DiagramOpened uri] | _ \<Rightarrow> [])))"

definition drawDiagram :: "'k diagram_manager_base \<Rightarrow> URI \<Rightarrow> 'k event list" where
  "drawDiagram B uri =
     (let (diagramWidgetPromise, opened) = manager_open B uri None
      in DrawDiagram uri # opened @
           (case diagramWidgetPromise of
              Fulfilled (KeithWidget w) \<Rightarrow> [ReInitialize w uri]
            | _ \<Rightarrow> []))"

text \<open>\<^verbatim>\<open>pop()\<close>: the last element, \<^verbatim>\<open>undefined\<close> on an empty array.\<close>

definition pop :: "'a list \<Rightarrow> 'a option" where
  "pop xs = (if xs = [] then None else Some (last xs))"

text \<open>
  \<^verbatim>\<open>onCurrentEditorChanged(editorWidget)\<close>; \<open>widgets\<close> is what
  \<^verbatim>\<open>this.widgetManager.getWidgets(this.id)\<close> returns.
\<close>

definition onCurrentEditorChanged ::
  "'k diagram_manager_base \<Rightarrow> 'w list \<Rightarrow> EditorWidget option \<Rightarrow> 'k event list" where
  "onCurrentEditorChanged B widgets editorWidget =
     (case (pop widgets, editorWidget) of
        (Some diagramWidget, Some ew) \<Rightarrow>
          (case getResourceUri ew of
             Some uri \<Rightarrow> drawDiagram B uri
           | None \<Rightarrow> [])
      | _ \<Rightarrow> [])"

definition createWidgetOptions :: "'k diagram_manager_base \<Rightarrow> URI \<Rightarrow> obj option \<Rightarrow> obj" where
  "createWidgetOptions B uri options =
     (super_createWidgetOptions B uri options)(''label'' \<mapsto> JStr ''Diagram'')"

definition DIAGRAM_TYPE :: string where
  "DIAGRAM_TYPE = ''keith-diagram''"

definition createClientId :: string where
  "createClientId = DIAGRAM_TYPE"

text \<open>
  String concatenation with what \<^verbatim>\<open>JSON.stringify\<close> returned: \<^verbatim>\<open>undefined\<close> is appended as
  the text \<^verbatim>\<open>undefined\<close>.
\<close>

definition js_to_string :: "string option \<Rightarrow> string" where
  "js_to_string v = (case v of None \<Rightarrow> ''undefined'' | Some s \<Rightarrow> s)"

text \<open>
  \<^verbatim>\<open>createWidget(options)\<close>. The function is \<^verbatim>\<open>async\<close>: \<open>Inl\<close> is the exception its promise
  is rejected with, \<open>Inr\<close> the widget it resolves to. An exception of a call is not caught, and
  \<^verbatim>\<open>config.createContainer\<close> on a configuration that is \<^verbatim>\<open>undefined\<close> is a \<^verbatim>\<open>TypeError\<close>. The
  widget \<^verbatim>\<open>new KeithDiagramWidget(options, clientId, diContainer, this.diagramConnector)\<close> is
  the record of the four arguments.
\<close>

definition createWidget ::
  "('o, 'dt, 'cfg, 'di, 'conn) widget_env \<Rightarrow> 'o
     \<Rightarrow> error + ('o, 'di, 'conn) KeithDiagramWidget" where
  "createWidget E options =
     (case is_DiagramWidgetOptions E options of
        Inl e \<Rightarrow> Inl e
      | Inr True \<Rightarrow>
          (let clientId = createClientId
           in case options_diagramType E options of
                Inl e \<Rightarrow> Inl e
              | Inr diagramType \<Rightarrow>
                  (case registry_get E diagramType of
                     Inl e \<Rightarrow> Inl e
                   | Inr None \<Rightarrow> Inl TypeError
                   | Inr (Some config) \<Rightarrow>
                       (case createContainer E config (clientId @ ''_sprotty'') of
                          Inl e \<Rightarrow> Inl e
                        | Inr diContainer \<Rightarrow>
                            Inr \<lparr>widget_options = options, widget_clientId = clientId,
                                 widget_diContainer = diContainer,
                                 widget_connector = diagramConnector E\<rparr>)))
      | Inr False \<Rightarrow>
          (case JSON_stringify E options of
             Inl e \<Rightarrow> Inl e
           | Inr json \<Rightarrow>
               Inl (Error (''DiagramWidgetFactory needs DiagramWidgetOptions but got ''
                     @ js_to_string json))))"

section \<open>The VS Code extension (klighd-extension)\<close>

text \<open>
  The language client lives in a static property of the class, shared by all its instances and
  \<^verbatim>\<open>undefined\<close> before the first construction.
\<close>

record 'c KLighDExtension_static =
  static_lsClient :: "'c option"

record 'c KLighDExtensionOptions =
  lsClient :: 'c
  supportedFileEnding :: "string list"

text \<open>
  An instance: its file endings and the language client the base class received from
  \<^verbatim>\<open>activateLanguageClient\<close> when its constructor ran.
\<close>

record 'c KLighDExtension =
  supportedFileEndings :: "string list"
  languageClient :: "'c option"

definition activateLanguageClient :: "'c KLighDExtension_static \<Rightarrow> 'ctx \<Rightarrow> 'c option" where
  "activateLanguageClient st ctx = static_lsClient st"

text \<open>
  The constructor: the static property is set, then the base class's constructor runs (it calls
  \<^verbatim>\<open>activateLanguageClient\<close> with the context), then the file endings are stored.
\<close>

definition new_KLighDExtension ::
  "'c KLighDExtension_static \<Rightarrow> 'ctx \<Rightarrow> 'c KLighDExtensionOptions
     \<Rightarrow> 'c KLighDExtension_static \<times> 'c KLighDExtension" where
  "new_KLighDExtension st ctx options =
     (let st' = st\<lparr>static_lsClient := Some (lsClient options)\<rparr>;
          received = activateLanguageClient st' ctx
      in (st', \<lparr>supportedFileEndings = supportedFileEnding options,
                 languageClient = received\<rparr>))"

text \<open>A command argument is a \<^verbatim>\<open>Uri\<close> or any other value.\<close>

record Uri =
  path :: string

datatype 'a command_arg = UriArg Uri | OtherArg 'a

text \<open>\<^verbatim>\<open>path.endsWith(ending)\<close>.\<close>

definition endsWith :: "string \<Rightarrow> string \<Rightarrow> bool" where
  "endsWith s ending =
     (length ending \<le> length s \<and> drop (length s - length ending) s = ending)"

definition pathHasSupportedFileEnding :: "'c KLighDExtension \<Rightarrow> string \<Rightarrow> bool" where
  "pathHasSupportedFileEnding this p = list_ex (\<lambda>ending. endsWith p ending) (supportedFileEndings this)"

text \<open>
  \<^verbatim>\<open>getDiagramType(commandArgs)\<close>; \<open>diagramType\<close> is the constant of \<^verbatim>\<open>./constants\<close>.
  \<^verbatim>\<open>commandArgs[0]\<close> of an empty array is \<^verbatim>\<open>undefined\<close>, which is no \<^verbatim>\<open>Uri\<close>.
\<close>

definition getDiagramType ::
  "string \<Rightarrow> 'c KLighDExtension \<Rightarrow> 'a command_arg list \<Rightarrow> string option" where
  "getDiagramType diagramType this commandArgs =
     (case commandArgs of
        UriArg u # _ \<Rightarrow>
          (if pathHasSupportedFileEnding this (path u) then Some diagramType else None)
      | _ \<Rightarrow> None)"

section \<open>Measures and sample values\<close>

text \<open>The number of rectangles, lines and circles in a node.\<close>

fun shapes :: "VNode \<Rightarrow> nat" where
  "shapes (G vs) = sum_list (map shapes vs)"
| "shapes (Text s) = 0"
| "shapes (Rect a b c d e f) = 1"
| "shapes (VerticalLine a b c) = 1"
| "shapes (Circle a b c d) = 1"
| "shapes (Lock a b) = 0"
| "shapes (Arrow a b c) = 0"

text \<open>The x coordinates of the locks in a node, from left to right.\<close>

fun lock_xs :: "VNode \<Rightarrow> real list" where
  "lock_xs (G vs) = concat (map lock_xs vs)"
| "lock_xs (Lock a b) = [a]"
| "lock_xs (Text s) = []"
| "lock_xs (Rect a b c d e f) = []"
| "lock_xs (VerticalLine a b c) = []"
| "lock_xs (Circle a b c d) = []"
| "lock_xs (Arrow a b c) = []"

text \<open>The variable \<^verbatim>\<open>x\<close> of \<open>renderConstraints\<close>.\<close>

definition constraint_x :: "KNode \<Rightarrow> real" where
  "constraint_x node = (if hierWidth node \<noteq> 0 then hierWidth node else width (sizeK node))"

text \<open>
  The heap \<open>renderLayer\<close> leaves when a node is selected and there is a layer: the root's
  \<open>hierHeight\<close> and \<open>hierWidth\<close> are set.
\<close>

definition hier_heap :: "constraint_utils \<Rightarrow> heap \<Rightarrow> ref list \<Rightarrow> ref \<Rightarrow> heap" where
  "hier_heap U h nodes rt =
     set_hier_bounds h rt (height (sizeK (h rt)))
       ((if shows_new_layer h
              (getNodesOfLayer U h (int (length (getLayers U h nodes)) - 1) nodes)
         then rightX (last (getLayers U h nodes)) + rightX (last (getLayers U h nodes))
                - leftX (last (getLayers U h nodes))
         else rightX (last (getLayers U h nodes)))
        - leftX (hd (getLayers U h nodes)) + 10)"

text \<open>
  Sample values, on which the definitions are evaluated: two layers, an instance of the
  functions of \<^verbatim>\<open>constraint-utils\<close>, and a root (reference 0) with three child nodes, the
  second of them selected.
\<close>

definition sample_layers :: "Layer list" where
  "sample_layers =
     [\<lparr>leftX = 0, rightX = 10, mid = 5, topY = 0, botY = 100\<rparr>,
      \<lparr>leftX = 20, rightX = 30, mid = 25, topY = 0, botY = 100\<rparr>]"

definition sample_utils :: constraint_utils where
  "sample_utils =
     \<lparr>filterKNodes = (\<lambda>h refs. refs),
      getSelectedNode = (\<lambda>h nodes. find (\<lambda>n. selected (h n)) nodes),
      getLayers = (\<lambda>h nodes. sample_layers),
      getLayerOfNode = (\<lambda>h n nodes layers. layerId (h n)),
      isLayerForbidden = (\<lambda>h n l. False),
      shouldOnlyLCBeSet = (\<lambda>h n layers. False),
      getNodesOfLayer = (\<lambda>h l nodes. filter (\<lambda>n. layerId (h n) = l) nodes),
      getPosInLayer = (\<lambda>h layerNodes target. case target of None \<Rightarrow> 0 | Some t \<Rightarrow> posId (h t))\<rparr>"

text \<open>The same functions, with the selected node dragged to the right of the last layer.\<close>

definition sample_utils_new_layer :: constraint_utils where
  "sample_utils_new_layer =
     sample_utils\<lparr>getLayerOfNode := (\<lambda>h n nodes layers. int (length layers))\<rparr>"

definition sample_node :: "bool \<Rightarrow> int \<Rightarrow> int \<Rightarrow> real \<Rightarrow> real \<Rightarrow> KNode" where
  "sample_node sel l p px py =
     \<lparr>children = [], selected = sel, layerId = l, posId = p, layerCons = -1, posCons = -1,
      position = \<lparr>point_x = px, point_y = py\<rparr>, sizeK = \<lparr>width = 8, height = 20\<rparr>,
      hierWidth = 0, hierHeight = 0\<rparr>"

definition sample_heap :: heap where
  "sample_heap =
     (\<lambda>r. sample_node False 0 0 0 0)
       (0 := (sample_node False 0 0 0 0)
               \<lparr>children := [1, 2, 3], sizeK := \<lparr>width = 40, height = 100\<rparr>\<rparr>,
        1 := sample_node False 0 0 1 10,
        2 := sample_node True 0 1 1 50,
        3 := sample_node False 1 0 21 10)"

text \<open>A node with a layer constraint and no position constraint.\<close>

definition locked_node :: KNode where
  "locked_node = (sample_node False 0 0 1 10)\<lparr>layerCons := 0, hierWidth := 5\<rparr>"

text \<open>
  Sample options for \<open>createWidget\<close>: \<^verbatim>\<open>undefined\<close>, \<^verbatim>\<open>null\<close>, a boolean, the object
  \<^verbatim>\<open>{diagramType: 'keith-diagram', uri: 'file:///model.sctx', label: 'Diagram', iconClass: 'fa fa-square-o'}\<close>
  and a circular object (\<^verbatim>\<open>const o = {}; o.self = o\<close>).
\<close>

datatype sample_value = SUndefined | SNull | SBool bool | SComplete | SCircular

text \<open>A property name or a string value between double quotes, as JSON writes it.\<close>

definition quoted :: "string \<Rightarrow> string" where
  "quoted s = CHR 0x22 # s @ [CHR 0x22]"

text \<open>
  The calls on the sample options. \<^verbatim>\<open>DiagramWidgetOptions.is\<close> reads the properties
  \<^verbatim>\<open>diagramType\<close>, \<^verbatim>\<open>uri\<close>, \<^verbatim>\<open>label\<close> and \<^verbatim>\<open>iconClass\<close> of its argument and wants all of
  them truthy: the read raises a \<^verbatim>\<open>TypeError\<close> on \<^verbatim>\<open>undefined\<close> and \<^verbatim>\<open>null\<close>, and a boolean has
  none of the properties. The registry holds one configuration, for \<^verbatim>\<open>keith-diagram\<close>.
\<close>

definition sample_env :: "(sample_value, string option, string, string, nat) widget_env" where
  "sample_env =
     \<lparr>is_DiagramWidgetOptions =
        (\<lambda>v. case v of
                SUndefined \<Rightarrow> Inl TypeError
              | SNull \<Rightarrow> Inl TypeError
              | SBool b \<Rightarrow> Inr False
              | SComplete \<Rightarrow> Inr True
              | SCircular \<Rightarrow> Inr False),
      options_diagramType =
        (\<lambda>v. case v of
                SUndefined \<Rightarrow> Inl TypeError
              | SNull \<Rightarrow> Inl TypeError
              | SBool b \<Rightarrow> Inr None
              | SComplete \<Rightarrow> Inr (Some ''keith-diagram'')
              | SCircular \<Rightarrow> Inr None),
      JSON_stringify =
        (\<lambda>v. case v of
                SUndefined \<Rightarrow> Inr None
              | SNull \<Rightarrow> Inr (Some ''null'')
              | SBool b \<Rightarrow> Inr (Some (if b then ''true'' else ''false''))
              | SComplete \<Rightarrow>
                  Inr (Some (''{'' @ quoted ''diagramType'' @ '':'' @ quoted ''keith-diagram''
                    @ '','' @ quoted ''uri'' @ '':'' @ quoted ''file:///model.sctx''
                    @ '','' @ quoted ''label'' @ '':'' @ quoted ''Diagram''
                    @ '','' @ quoted ''iconClass'' @ '':'' @ quoted ''fa fa-square-o'' @ ''}''))
              | SCircular \<Rightarrow> Inl TypeError),
      registry_get =
        (\<lambda>t. Inr (if t = Some ''keith-diagram'' then Some ''keith-config'' else None)),
      createContainer = (\<lambda>c w. Inr (c @ ''/'' @ w)),
      diagramConnector = 7\<rparr>"

definition sample_base :: "nat diagram_manager_base" where
  "sample_base =
     \<lparr>super_open = (\<lambda>uri opts. if opts ''mode'' = Some (JStr ''reveal'')
                                then Fulfilled (KeithWidget 1) else Rejected (Error ''mode'')),
      super_createWidgetOptions = (\<lambda>uri options.
         [''label'' \<mapsto> JStr ''model.sctx'', ''iconClass'' \<mapsto> JStr ''fa fa-square-o''])\<rparr>"

definition sample_uri :: URI where
  "sample_uri = URI ''file:///model.sctx''"

definition sample_options :: "nat KLighDExtensionOptions" where
  "sample_options = \<lparr>lsClient = 0, supportedFileEnding = [''.sctx'', ''.kgt'']\<rparr>"

section \<open>The interactive layout overlay: properties\<close>

subsection \<open>The loops\<close>

lemma shapes_layers_loop:
  "shapes (layers_loop ls i cur tY bY forbidden onlyLC result) = shapes result + length ls"
  by (induction ls arbitrary: i result) simp_all

lemma shapes_positions_loop:
  "shapes (fst (positions_loop h ns i curPos xm forbidden (result, shift)))
     \<le> shapes result + (length ns - 1)"
proof (induction h ns i curPos xm forbidden "(result, shift)" arbitrary: result shift
    rule: positions_loop.induct)
  case (1 h node nxt rest i curPos xm forbidden result shift)
  show ?case
  proof (cases "\<not> selected (h node) \<and> \<not> selected (h nxt)")
    case True
    with 1(1) [of "G [result, Circle (curPos = int i + shift) xm
         (point_y (position (h node)) + height (sizeK (h node))
           + (point_y (position (h nxt))
               - (point_y (position (h node)) + height (sizeK (h node)))) / 2)
         forbidden]" shift]
    show ?thesis by (simp add: Let_def)
  next
    case False
    with 1(1) [of result 0] show ?thesis by auto
  qed
qed simp_all

text \<open>
  Each loop ends, after as many passes as the list it runs over is long (one less for the loop
  over the nodes of the current layer), with the result of the recursive function above.
\<close>

lemma layers_for_from:
  "i \<le> length layers \<Longrightarrow>
   while_option (\<lambda>(i, result). i < length layers)
       (\<lambda>(i, result).
          (let layer = layers ! i
           in (Suc i,
               if int i = currentLayer then
                 G [result, Rect (leftX layer) tY (rightX layer - leftX layer) (bY - tY)
                      forbidden onlyLC]
               else G [result, VerticalLine (mid layer) tY bY])))
       (i, result)
   = Some (length layers, layers_loop (drop i layers) i currentLayer tY bY forbidden onlyLC result)"
proof (induction "length layers - i" arbitrary: i result)
  case 0
  then show ?case by (subst while_option_unfold) simp
next
  case (Suc k)
  then have lt: "i < length layers" and k: "k = length layers - Suc i" by simp_all
  have d: "drop i layers = layers ! i # drop (Suc i) layers"
    using lt by (simp add: Cons_nth_drop_Suc)
  from lt Suc(1) [of "Suc i", OF k] show ?case
    by (subst while_option_unfold) (simp add: d Let_def)
qed

lemma layers_for_eq:
  "layers_for layers currentLayer tY bY forbidden onlyLC =
     Some (length layers, layers_loop layers 0 currentLayer tY bY forbidden onlyLC (G []))"
  unfolding layers_for_def using layers_for_from [of 0 layers] by simp

lemma target_for_from:
  "i \<le> length nodes \<Longrightarrow>
   while_option (\<lambda>(i, target). i < length nodes)
       (\<lambda>(i, target).
          (let node = nodes ! i
           in (Suc i, if selected (h node) then Some node else target)))
       (i, target)
   = Some (length nodes,
       foldl (\<lambda>target node. if selected (h node) then Some node else target) target (drop i nodes))"
proof (induction "length nodes - i" arbitrary: i target)
  case 0
  then show ?case by (subst while_option_unfold) simp
next
  case (Suc k)
  then have lt: "i < length nodes" and k: "k = length nodes - Suc i" by simp_all
  have d: "drop i nodes = nodes ! i # drop (Suc i) nodes"
    using lt by (simp add: Cons_nth_drop_Suc)
  from lt Suc(1) [of "Suc i", OF k] show ?case
    by (subst while_option_unfold) (simp add: d Let_def)
qed

lemma target_for_eq: "target_for h nodes = Some (length nodes, select_target h nodes)"
  unfolding target_for_def select_target_def using target_for_from [of 0 nodes] by simp

lemma positions_for_from:
  assumes b: "b = (\<lambda>(i, result, shift). int i < int (length ns) - 1)"
    and c: "c = (\<lambda>(i, result, shift).
          (let node = ns ! i;
               next = ns ! (i + 1)
           in if \<not> selected (h node) \<and> \<not> selected (h next) then
                (let tY = point_y (position (h node)) + height (sizeK (h node));
                     bY = point_y (position (h next));
                     midY = tY + (bY - tY) / 2
                 in (Suc i, G [result, Circle (curPos = int i + shift) xm midY forbidden], shift))
              else (Suc i, result, 0)))"
  shows "i \<le> length ns - 1 \<Longrightarrow>
   while_option b c (i, result, shift)
   = Some (length ns - 1, positions_loop h (drop i ns) i curPos xm forbidden (result, shift))"
proof (induction "length ns - 1 - i" arbitrary: i result shift)
  case 0
  then have i: "i = length ns - 1" by simp
  have "positions_loop h (drop i ns) i curPos xm forbidden (result, shift) = (result, shift)"
  proof (cases "ns = []")
    case True
    then show ?thesis by simp
  next
    case False
    then have "drop i ns = [last ns]"
      unfolding i by (metis append_butlast_last_id append_eq_conv_conj length_butlast)
    then show ?thesis by simp
  qed
  moreover have "\<not> b (i, result, shift)" using i by (simp add: b)
  ultimately show ?case by (subst while_option_unfold) (simp add: i)
next
  case (Suc k)
  then have lt: "Suc i < length ns" and k: "k = length ns - 1 - Suc i" by simp_all
  have d: "drop i ns = ns ! i # ns ! Suc i # drop (Suc (Suc i)) ns"
    using lt by (metis Cons_nth_drop_Suc Suc_lessD)
  have d': "drop (Suc i) ns = ns ! Suc i # drop (Suc (Suc i)) ns"
    using lt by (simp add: Cons_nth_drop_Suc)
  have cond: "b (i, result, shift)" using lt by (simp add: b)
  have le: "Suc i \<le> length ns - 1" using lt by simp
  show ?case
  proof (cases "\<not> selected (h (ns ! i)) \<and> \<not> selected (h (ns ! Suc i))")
    case True
    define r' where "r' = G [result, Circle (curPos = int i + shift) xm
         (point_y (position (h (ns ! i))) + height (sizeK (h (ns ! i)))
           + (point_y (position (h (ns ! Suc i)))
               - (point_y (position (h (ns ! i))) + height (sizeK (h (ns ! i))))) / 2)
         forbidden]"
    have step: "c (i, result, shift) = (Suc i, r', shift)"
      using True by (simp add: c r'_def Let_def)
    have loop: "positions_loop h (drop i ns) i curPos xm forbidden (result, shift)
          = positions_loop h (drop (Suc i) ns) (Suc i) curPos xm forbidden (r', shift)"
      using True unfolding d d' by (simp add: r'_def Let_def)
    have "while_option b c (i, result, shift) = while_option b c (Suc i, r', shift)"
      using cond step by (subst while_option_unfold) simp
    with Suc(1) [OF k le, of r' shift] loop show ?thesis by simp
  next
    case False
    have step: "c (i, result, shift) = (Suc i, result, 0)"
      using False by (auto simp add: c Let_def)
    have loop: "positions_loop h (drop i ns) i curPos xm forbidden (result, shift)
          = positions_loop h (drop (Suc i) ns) (Suc i) curPos xm forbidden (result, 0)"
      using False unfolding d d' by auto
    have "while_option b c (i, result, shift) = while_option b c (Suc i, result, 0)"
      using cond step by (subst while_option_unfold) simp
    with Suc(1) [OF k le, of result 0] loop show ?thesis by simp
  qed
qed

lemma positions_for_eq:
  "positions_for h ns curPos xm forbidden =
     Some (length ns - 1, positions_loop h ns 0 curPos xm forbidden (G [], 1))"
  unfolding positions_for_def using positions_for_from [OF refl refl, of 0 ns] by simp


subsection \<open>renderPositions\<close>

text \<open>
  \<open>renderPositions\<close> returns a node when there is a layer and the current layer exists or holds
  no node; the circles it draws are at most one more than the nodes of the current layer.
\<close>

lemma renderPositions_returns:
  assumes "layers \<noteq> []"
    and "layer_at layers current = None \<Longrightarrow> getNodesOfLayer U h current nodes = []"
  shows "\<exists>v. renderPositions U h current nodes layers forbidden = Inr v
           \<and> shapes v \<le> length (getNodesOfLayer U h current nodes) + 1"
proof (cases "getNodesOfLayer U h current nodes = []")
  case True
  with assms(1) show ?thesis
    by (cases layers) (simp_all add: renderPositions_def Let_def)
next
  case False
  with assms(2) obtain cl where cl: "layer_at layers current = Some cl" by auto
  let ?ns = "sort_key (\<lambda>n. posId (h n)) (getNodesOfLayer U h current nodes)"
  let ?curPos = "getPosInLayer U h (getNodesOfLayer U h current nodes) (select_target h nodes)"
  obtain r s where rs: "positions_loop h ?ns 0 ?curPos (mid cl) forbidden (G [], 1) = (r, s)"
    by (cases "positions_loop h ?ns 0 ?curPos (mid cl) forbidden (G [], 1)")
  have ne: "?ns \<noteq> []" using False by (metis length_0_conv length_sort)
  have "shapes r \<le> length ?ns - 1"
    using shapes_positions_loop [of h ?ns 0 ?curPos "mid cl" forbidden "G []" 1] rs by simp
  moreover have "length ?ns = length (getNodesOfLayer U h current nodes)" by simp
  moreover have "length (getNodesOfLayer U h current nodes) > 0" using False by simp
  ultimately have b: "shapes r + 2 \<le> length (getNodesOfLayer U h current nodes) + 1" by linarith
  show ?thesis
    using ne cl rs b by (simp add: renderPositions_def Let_def)
qed

text \<open>A layer that does not exist and holds a node: the read of its \<^verbatim>\<open>mid\<close> raises.\<close>

lemma renderPositions_raises:
  assumes "layer_at layers current = None" and "getNodesOfLayer U h current nodes \<noteq> []"
  shows "renderPositions U h current nodes layers forbidden = Inl TypeError"
proof -
  have "sort_key (\<lambda>n. posId (h n)) (getNodesOfLayer U h current nodes) \<noteq> []"
    using assms(2) by (metis length_0_conv length_sort)
  with assms(1) show ?thesis by (simp add: renderPositions_def Let_def)
qed

text \<open>
  \<open>renderPositions\<close> over the while loops ends, with the outcome of \<open>renderPositions\<close>, after
  one pass for each node and, when the circles between the nodes are drawn, one pass less than
  the current layer has nodes.
\<close>

lemma renderPositions_run_eq:
  "renderPositions_run U h current nodes layers forbidden =
     Some (renderPositions U h current nodes layers forbidden,
           length nodes +
             (if getNodesOfLayer U h current nodes \<noteq> [] \<and> layer_at layers current \<noteq> None
              then length (getNodesOfLayer U h current nodes) - 1 else 0))"
proof -
  have ne: "sort_key (\<lambda>n. posId (h n)) (getNodesOfLayer U h current nodes) = []
              \<longleftrightarrow> getNodesOfLayer U h current nodes = []"
    by (metis length_0_conv length_sort)
  show ?thesis
    unfolding renderPositions_run_def renderPositions_def
    by (simp add: target_for_eq positions_for_eq Let_def split_beta ne
        split: option.splits list.splits)
qed

subsection \<open>renderLayer\<close>

text \<open>
  The shape of \<open>renderLayer\<close>'s result when a node is selected and there is a layer:
  \<open>result\<close> is the group of layers built before the positions are rendered.
\<close>

lemma renderLayer_selected:
  assumes sel: "getSelectedNode U h nodes = Some s"
    and ls: "getLayers U h nodes = l0 # ls"
  shows "\<exists>result. shapes result \<le> length (l0 # ls) + 1 \<and>
           renderLayer U h nodes rt =
             (if \<not> (shouldOnlyLCBeSet U h s (l0 # ls)
                     \<and> layerId (h s) \<noteq> getLayerOfNode U h s nodes (l0 # ls))
              then (case renderPositions U (hier_heap U h nodes rt)
                           (getLayerOfNode U h s nodes (l0 # ls)) nodes (l0 # ls)
                           (isLayerForbidden U h s (getLayerOfNode U h s nodes (l0 # ls))) of
                      Inl e \<Rightarrow> (Inl e, hier_heap U h nodes rt)
                    | Inr positions \<Rightarrow> (Inr (G [result, positions]), hier_heap U h nodes rt))
              else (Inr result, hier_heap U h nodes rt))"
proof (cases "shows_new_layer h (getNodesOfLayer U h (int (length (l0 # ls)) - 1) nodes)")
  case True
  show ?thesis
    using sel unfolding renderLayer_def hier_heap_def ls
    apply (simp only: option.case list.case Let_def list.sel True if_True prod.case)
    apply (rule exI, rule conjI)
     prefer 2
     apply (rule refl)
    apply (simp add: shapes_layers_loop)
    done
next
  case False
  show ?thesis
    using sel unfolding renderLayer_def hier_heap_def ls
    apply (simp only: option.case list.case Let_def list.sel False if_False prod.case)
    apply (rule exI, rule conjI)
     prefer 2
     apply (rule refl)
    apply (simp add: shapes_layers_loop)
    done
qed

lemma renderLayer_heap:
  assumes "getSelectedNode U h nodes = Some s" and "getLayers U h nodes \<noteq> []"
  shows "snd (renderLayer U h nodes rt) = hier_heap U h nodes rt"
proof -
  obtain l0 ls where ls: "getLayers U h nodes = l0 # ls"
    using assms(2) by (cases "getLayers U h nodes") auto
  from renderLayer_selected [OF assms(1) ls, of rt]
  obtain result where eq: "renderLayer U h nodes rt =
             (if \<not> (shouldOnlyLCBeSet U h s (l0 # ls)
                     \<and> layerId (h s) \<noteq> getLayerOfNode U h s nodes (l0 # ls))
              then (case renderPositions U (hier_heap U h nodes rt)
                           (getLayerOfNode U h s nodes (l0 # ls)) nodes (l0 # ls)
                           (isLayerForbidden U h s (getLayerOfNode U h s nodes (l0 # ls))) of
                      Inl e \<Rightarrow> (Inl e, hier_heap U h nodes rt)
                    | Inr positions \<Rightarrow> (Inr (G [result, positions]), hier_heap U h nodes rt))
              else (Inr result, hier_heap U h nodes rt))"
    by blast
  show ?thesis
    unfolding eq
    by (cases "renderPositions U (hier_heap U h nodes rt)
                 (getLayerOfNode U h s nodes (l0 # ls)) nodes (l0 # ls)
                 (isLayerForbidden U h s (getLayerOfNode U h s nodes (l0 # ls)))") simp_all
qed

text \<open>
  \<open>renderLayer\<close> over the while loops ends, for every input, with the outcome and the heap of
  \<open>renderLayer\<close>; its loops make at most one pass for each layer, one for each node and one for
  each node of the current layer.
\<close>

lemma renderLayer_run_eq:
  "\<exists>k. renderLayer_run U h nodes rt = Some (renderLayer U h nodes rt, k)
     \<and> k \<le> length (getLayers U h nodes) + length nodes
            + (case getSelectedNode U h nodes of
                 None \<Rightarrow> 0
               | Some s \<Rightarrow>
                   length (getNodesOfLayer U (hier_heap U h nodes rt)
                     (getLayerOfNode U h s nodes (getLayers U h nodes)) nodes))"
proof (cases "getSelectedNode U h nodes")
  case None
  then show ?thesis by (simp add: renderLayer_run_def renderLayer_def)
next
  case (Some s)
  show ?thesis
  proof (cases "getLayers U h nodes")
    case Nil
    with Some show ?thesis by (simp add: renderLayer_run_def renderLayer_def)
  next
    case (Cons l0 ls)
    let ?cur = "getLayerOfNode U h s nodes (l0 # ls)"
    let ?f = "isLayerForbidden U h s ?cur"
    let ?h' = "hier_heap U h nodes rt"
    have p: "renderPositions_run U ?h' ?cur nodes (l0 # ls) ?f =
               Some (renderPositions U ?h' ?cur nodes (l0 # ls) ?f,
                 length nodes +
                   (if getNodesOfLayer U ?h' ?cur nodes \<noteq> [] \<and> layer_at (l0 # ls) ?cur \<noteq> None
                    then length (getNodesOfLayer U ?h' ?cur nodes) - 1 else 0))"
      by (rule renderPositions_run_eq)
    show ?thesis
    proof (cases "shows_new_layer h (getNodesOfLayer U h (int (length (l0 # ls)) - 1) nodes)")
      case True
      show ?thesis
        using Some p unfolding renderLayer_run_def renderLayer_def hier_heap_def Cons
        apply (simp only: option.case list.case Let_def list.sel True if_True prod.case
            layers_for_eq)
        apply (cases "renderPositions U
            (set_hier_bounds h rt (height (sizeK (h rt)))
               (rightX (last (l0 # ls)) + rightX (last (l0 # ls)) - leftX (last (l0 # ls))
                  - leftX l0 + 10))
            (getLayerOfNode U h s nodes (l0 # ls)) nodes (l0 # ls)
            (isLayerForbidden U h s (getLayerOfNode U h s nodes (l0 # ls)))")
         apply (simp_all split: if_splits)
        done
    next
      case False
      show ?thesis
        using Some p unfolding renderLayer_run_def renderLayer_def hier_heap_def Cons
        apply (simp only: option.case list.case Let_def list.sel False if_False prod.case
            layers_for_eq)
        apply (cases "renderPositions U
            (set_hier_bounds h rt (height (sizeK (h rt)))
               (rightX (last (l0 # ls)) - leftX l0 + 10))
            (getLayerOfNode U h s nodes (l0 # ls)) nodes (l0 # ls)
            (isLayerForbidden U h s (getLayerOfNode U h s nodes (l0 # ls)))")
         apply (simp_all split: if_splits)
        done
    qed
  qed
qed

text \<open>
  When a node is selected, \<open>renderLayer\<close> returns a node if there is a layer and, in case the
  positions are rendered, the current layer exists or holds no node in the heap with the
  root's bounds set.
\<close>

lemma renderLayer_returns:
  assumes sel: "getSelectedNode U h nodes = Some s"
    and ne: "getLayers U h nodes \<noteq> []"
    and res: "\<not> (shouldOnlyLCBeSet U h s (getLayers U h nodes)
                  \<and> layerId (h s) \<noteq> getLayerOfNode U h s nodes (getLayers U h nodes)) \<Longrightarrow>
              layer_at (getLayers U h nodes)
                (getLayerOfNode U h s nodes (getLayers U h nodes)) = None \<Longrightarrow>
              getNodesOfLayer U (hier_heap U h nodes rt)
                (getLayerOfNode U h s nodes (getLayers U h nodes)) nodes = []"
    and len: "length (getNodesOfLayer U (hier_heap U h nodes rt)
                (getLayerOfNode U h s nodes (getLayers U h nodes)) nodes) \<le> length nodes"
  shows "\<exists>v. fst (renderLayer U h nodes rt) = Inr v
           \<and> shapes v \<le> length (getLayers U h nodes) + length nodes + 2"
proof -
  obtain l0 ls where ls: "getLayers U h nodes = l0 # ls"
    using ne by (cases "getLayers U h nodes") auto
  let ?cur = "getLayerOfNode U h s nodes (l0 # ls)"
  let ?f = "isLayerForbidden U h s ?cur"
  let ?onlyLC = "shouldOnlyLCBeSet U h s (l0 # ls) \<and> layerId (h s) \<noteq> ?cur"
  define h' where "h' = hier_heap U h nodes rt"
  from renderLayer_selected [OF sel ls, of rt]
  obtain result where r: "shapes result \<le> length (l0 # ls) + 1"
    and eq: "renderLayer U h nodes rt =
             (if \<not> ?onlyLC
              then (case renderPositions U h' ?cur nodes (l0 # ls) ?f of
                      Inl e \<Rightarrow> (Inl e, h')
                    | Inr positions \<Rightarrow> (Inr (G [result, positions]), h'))
              else (Inr result, h'))"
    unfolding h'_def by blast
  show ?thesis
  proof (cases ?onlyLC)
    case True
    with eq have "fst (renderLayer U h nodes rt) = Inr result" by simp
    with r show ?thesis unfolding ls by auto
  next
    case False
    from renderPositions_returns [of "l0 # ls" ?cur U h' nodes ?f] res False
    obtain v where v: "renderPositions U h' ?cur nodes (l0 # ls) ?f = Inr v"
      "shapes v \<le> length (getNodesOfLayer U h' ?cur nodes) + 1"
      unfolding ls h'_def by auto
    from v(2) len have v': "shapes v \<le> length nodes + 1"
      unfolding ls h'_def by linarith
    from False eq v(1) have "fst (renderLayer U h nodes rt) = Inr (G [result, v])" by simp
    moreover have "shapes (G [result, v]) \<le> length (l0 # ls) + length nodes + 2"
      using r v' by simp
    ultimately show ?thesis unfolding ls by blast
  qed
qed

text \<open>Without a layer the read of \<^verbatim>\<open>layers[0].topY\<close> raises, before the root is written.\<close>

lemma renderLayer_no_layer:
  assumes "getSelectedNode U h nodes = Some s" and "getLayers U h nodes = []"
  shows "renderLayer U h nodes rt = (Inl TypeError, h)"
  using assms by (simp add: renderLayer_def)

text \<open>
  These conditions are needed: when a node is selected and \<open>renderLayer\<close> returns a node, there
  is a layer and, in case the positions are rendered, the current layer exists or holds no
  node.
\<close>

lemma renderLayer_returns_only_if:
  assumes sel: "getSelectedNode U h nodes = Some s"
    and ret: "fst (renderLayer U h nodes rt) = Inr v"
  shows "getLayers U h nodes \<noteq> []
         \<and> (\<not> (shouldOnlyLCBeSet U h s (getLayers U h nodes)
                  \<and> layerId (h s) \<noteq> getLayerOfNode U h s nodes (getLayers U h nodes)) \<longrightarrow>
              layer_at (getLayers U h nodes)
                (getLayerOfNode U h s nodes (getLayers U h nodes)) = None \<longrightarrow>
              getNodesOfLayer U (hier_heap U h nodes rt)
                (getLayerOfNode U h s nodes (getLayers U h nodes)) nodes = [])"
proof -
  have ne: "getLayers U h nodes \<noteq> []"
    using renderLayer_no_layer [OF sel, of rt] ret by auto
  then obtain l0 ls where ls: "getLayers U h nodes = l0 # ls"
    by (cases "getLayers U h nodes") auto
  let ?cur = "getLayerOfNode U h s nodes (l0 # ls)"
  let ?f = "isLayerForbidden U h s ?cur"
  let ?onlyLC = "shouldOnlyLCBeSet U h s (l0 # ls) \<and> layerId (h s) \<noteq> ?cur"
  define h' where "h' = hier_heap U h nodes rt"
  from renderLayer_selected [OF sel ls, of rt]
  obtain result where eq: "renderLayer U h nodes rt =
             (if \<not> ?onlyLC
              then (case renderPositions U h' ?cur nodes (l0 # ls) ?f of
                      Inl e \<Rightarrow> (Inl e, h')
                    | Inr positions \<Rightarrow> (Inr (G [result, positions]), h'))
              else (Inr result, h'))"
    unfolding h'_def by blast
  have "getNodesOfLayer U h' ?cur nodes = []"
    if "\<not> ?onlyLC" and "layer_at (l0 # ls) ?cur = None"
  proof (rule ccontr)
    assume "getNodesOfLayer U h' ?cur nodes \<noteq> []"
    from renderPositions_raises [OF that(2) this, of ?f]
    have "renderPositions U h' ?cur nodes (l0 # ls) ?f = Inl TypeError" .
    with eq that(1) have "fst (renderLayer U h nodes rt) = Inl TypeError" by simp
    with ret show False by simp
  qed
  with ne show ?thesis unfolding ls h'_def by blast
qed

subsection \<open>The sample\<close>

lemma sample_selected: "getSelectedNode sample_utils sample_heap [1, 2, 3] = Some 2"
  by (simp add: sample_utils_def sample_heap_def sample_node_def)

lemma sample_layers_of: "getLayers sample_utils h nodes = sample_layers"
  by (simp add: sample_utils_def)

lemma sample_render:
  "renderInteractiveLayout sample_utils sample_heap 0 =
     (Inr (G [G [G [G [G [G [], Rect 0 0 10 100 False False], VerticalLine 25 0 100],
                  VerticalLine 35 0 100],
               G [G [], Circle False 5 5 False]]]),
      sample_heap (0 := (sample_heap 0)\<lparr>hierHeight := 100, hierWidth := 50\<rparr>))"
  by (simp add: renderInteractiveLayout_def renderLayer_def renderPositions_def
      sample_utils_def sample_heap_def sample_node_def sample_layers_def layer_at_def
      select_target_def shows_new_layer_def set_hier_bounds_def Let_def)

lemma sample_run:
  "renderInteractiveLayout_run sample_utils sample_heap 0 =
     Some ((Inr (G [G [G [G [G [G [], Rect 0 0 10 100 False False], VerticalLine 25 0 100],
                        VerticalLine 35 0 100],
                     G [G [], Circle False 5 5 False]]]),
            sample_heap (0 := (sample_heap 0)\<lparr>hierHeight := 100, hierWidth := 50\<rparr>)), 6)"
  by (simp add: renderInteractiveLayout_run_def renderLayer_run_def renderPositions_run_def
      layers_for_eq target_for_eq positions_for_eq
      sample_utils_def sample_heap_def sample_node_def sample_layers_def layer_at_def
      select_target_def shows_new_layer_def set_hier_bounds_def Let_def)

lemma sample_run_new_layer:
  "renderInteractiveLayout_run sample_utils_new_layer sample_heap 0 =
     Some ((Inr (G [G [G [G [G [G [], VerticalLine 5 0 100], VerticalLine 25 0 100],
                        Rect 30 0 10 100 False False],
                     G [Circle True 35 50 False]]]),
            sample_heap (0 := (sample_heap 0)\<lparr>hierHeight := 100, hierWidth := 50\<rparr>)), 5)"
  by (simp add: renderInteractiveLayout_run_def renderLayer_run_def renderPositions_run_def
      layers_for_eq target_for_eq positions_for_eq sample_utils_new_layer_def
      sample_utils_def sample_heap_def sample_node_def sample_layers_def layer_at_def
      select_target_def shows_new_layer_def set_hier_bounds_def Let_def)

subsection \<open>Claims on the overlay\<close>

text \<open>
  C2. When no node of the list is selected (\<open>getSelectedNode\<close> yields \<^verbatim>\<open>undefined\<close>),
  \<open>renderLayer\<close> returns the empty group, which holds no rectangle, line or circle, and
  leaves the heap as it was: no field of the root, \<open>hierHeight\<close> and \<open>hierWidth\<close> among
  them, is written.
\<close>

theorem renderLayer_without_selection:
  "getSelectedNode U h nodes = None \<Longrightarrow> renderLayer U h nodes rt = (Inr (G []), h)"
  by (simp add: renderLayer_def)

theorem renderLayer_without_selection_witness:
  "getSelectedNode sample_utils sample_heap [1, 3] = None
   \<and> renderLayer sample_utils sample_heap [1, 3] 0 = (Inr (G []), sample_heap)"
proof -
  have n: "getSelectedNode sample_utils sample_heap [1, 3] = None"
    by (simp add: sample_utils_def sample_heap_def sample_node_def)
  from n renderLayer_without_selection [OF n, of 0] show ?thesis by simp
qed

text \<open>
  C7. \<open>renderInteractiveLayout\<close>, with \<open>renderLayer\<close> and \<open>renderPositions\<close> under it, run
  with its loops as while loops, ends (the result is not \<open>None\<close>) and returns a node, the one
  \<open>renderInteractiveLayout\<close> gives. Its loops make at most as many passes as there are layers
  plus twice the nodes, and the node holds at most as many rectangles, lines and circles as
  there are layers and nodes, plus two. This holds when the functions of
  \<^verbatim>\<open>constraint-utils\<close> resolve the layers of the root's nodes: a selected node has at least
  one layer; when the positions are rendered, the current layer exists or holds no node (as
  the new last layer does); and the nodes of the current layer are at most the nodes given.
  The heap these two conditions read is the one with the root's bounds set, which
  \<open>renderPositions\<close> is called with.
\<close>

theorem renderInteractiveLayout_returns:
  assumes nodes: "nodes = filterKNodes U h (children (h rt))"
    and ne: "\<And>s. getSelectedNode U h nodes = Some s \<Longrightarrow> getLayers U h nodes \<noteq> []"
    and res: "\<And>s. getSelectedNode U h nodes = Some s \<Longrightarrow>
                \<not> (shouldOnlyLCBeSet U h s (getLayers U h nodes)
                    \<and> layerId (h s) \<noteq> getLayerOfNode U h s nodes (getLayers U h nodes)) \<Longrightarrow>
                layer_at (getLayers U h nodes)
                  (getLayerOfNode U h s nodes (getLayers U h nodes)) = None \<Longrightarrow>
                getNodesOfLayer U (hier_heap U h nodes rt)
                  (getLayerOfNode U h s nodes (getLayers U h nodes)) nodes = []"
    and len: "\<And>s. getSelectedNode U h nodes = Some s \<Longrightarrow>
                length (getNodesOfLayer U (hier_heap U h nodes rt)
                  (getLayerOfNode U h s nodes (getLayers U h nodes)) nodes) \<le> length nodes"
  shows "\<exists>v h' k. renderInteractiveLayout_run U h rt = Some ((Inr v, h'), k)
           \<and> renderInteractiveLayout U h rt = (Inr v, h')
           \<and> k \<le> length (getLayers U h nodes) + 2 * length nodes
           \<and> shapes v \<le> length (getLayers U h nodes) + length nodes + 2"
proof -
  have "\<exists>v. fst (renderLayer U h nodes rt) = Inr v
           \<and> shapes v \<le> length (getLayers U h nodes) + length nodes + 2"
  proof (cases "getSelectedNode U h nodes")
    case None
    then show ?thesis by (simp add: renderLayer_def)
  next
    case (Some s)
    from renderLayer_returns [OF Some ne [OF Some] res [OF Some] len [OF Some]]
    show ?thesis .
  qed
  then obtain v where v: "fst (renderLayer U h nodes rt) = Inr v"
    "shapes v \<le> length (getLayers U h nodes) + length nodes + 2"
    by blast
  obtain h' where r: "renderLayer U h nodes rt = (Inr v, h')"
    using v(1) by (cases "renderLayer U h nodes rt") simp
  from renderLayer_run_eq [of U h nodes rt]
  obtain k where k: "renderLayer_run U h nodes rt = Some (renderLayer U h nodes rt, k)"
    "k \<le> length (getLayers U h nodes) + length nodes
            + (case getSelectedNode U h nodes of
                 None \<Rightarrow> 0
               | Some s \<Rightarrow>
                   length (getNodesOfLayer U (hier_heap U h nodes rt)
                     (getLayerOfNode U h s nodes (getLayers U h nodes)) nodes))"
    by blast
  have "k \<le> length (getLayers U h nodes) + 2 * length nodes"
  proof (cases "getSelectedNode U h nodes")
    case None
    with k(2) show ?thesis by simp
  next
    case (Some s)
    with k(2) len [OF Some] show ?thesis by simp
  qed
  moreover have "renderInteractiveLayout_run U h rt = Some ((Inr (G [v]), h'), k)"
    using k(1) r by (simp add: renderInteractiveLayout_run_def nodes [symmetric])
  moreover have "renderInteractiveLayout U h rt = (Inr (G [v]), h')"
    using r by (simp add: renderInteractiveLayout_def nodes [symmetric])
  moreover have "shapes (G [v]) \<le> length (getLayers U h nodes) + length nodes + 2"
    using v(2) by simp
  ultimately show ?thesis by blast
qed

theorem renderInteractiveLayout_returns_witness:
  "renderInteractiveLayout_run sample_utils sample_heap 0 =
     Some ((Inr (G [G [G [G [G [G [], Rect 0 0 10 100 False False], VerticalLine 25 0 100],
                        VerticalLine 35 0 100],
                     G [G [], Circle False 5 5 False]]]),
            sample_heap (0 := (sample_heap 0)\<lparr>hierHeight := 100, hierWidth := 50\<rparr>)), 6)
   \<and> (6::nat) \<le> length sample_layers + 2 * length [1::nat, 2, 3]
   \<and> renderInteractiveLayout_run sample_utils_new_layer sample_heap 0 =
     Some ((Inr (G [G [G [G [G [G [], VerticalLine 5 0 100], VerticalLine 25 0 100],
                        Rect 30 0 10 100 False False],
                     G [Circle True 35 50 False]]]),
            sample_heap (0 := (sample_heap 0)\<lparr>hierHeight := 100, hierWidth := 50\<rparr>)), 5)
   \<and> (5::nat) \<le> length sample_layers + 2 * length [1::nat, 2, 3]"
proof -
  have len: "length (filter P [1::nat, 2, 3]) \<le> length [1::nat, 2, 3]" for P
    by (rule length_filter_le)
  have nodes: "[1, 2, 3] = filterKNodes sample_utils sample_heap (children (sample_heap 0))"
    by (simp add: sample_utils_def sample_heap_def sample_node_def)
  have ne: "getLayers sample_utils sample_heap [1, 2, 3] \<noteq> []"
    by (simp add: sample_layers_of sample_layers_def)
  have res: "getNodesOfLayer sample_utils (hier_heap sample_utils sample_heap [1, 2, 3] 0)
        (getLayerOfNode sample_utils sample_heap s [1, 2, 3]
           (getLayers sample_utils sample_heap [1, 2, 3])) [1, 2, 3] = []"
    if "getSelectedNode sample_utils sample_heap [1, 2, 3] = Some s"
      and "layer_at (getLayers sample_utils sample_heap [1, 2, 3])
             (getLayerOfNode sample_utils sample_heap s [1, 2, 3]
                (getLayers sample_utils sample_heap [1, 2, 3])) = None"
    for s
  proof -
    from that(1) have "s = 2" unfolding sample_selected by simp
    with that(2) show ?thesis
      by (simp add: sample_utils_def sample_heap_def sample_node_def sample_layers_def
          layer_at_def)
  qed
  have l: "length (getNodesOfLayer sample_utils (hier_heap sample_utils sample_heap [1, 2, 3] 0)
        (getLayerOfNode sample_utils sample_heap s [1, 2, 3]
           (getLayers sample_utils sample_heap [1, 2, 3])) [1, 2, 3]) \<le> length [1::nat, 2, 3]"
    for s
    using len by (simp add: sample_utils_def del: filter.simps length_filter_le)
  from renderInteractiveLayout_returns [of "[1, 2, 3]" sample_utils sample_heap 0,
      OF nodes ne res l]
  obtain v h' k where a: "renderInteractiveLayout_run sample_utils sample_heap 0
        = Some ((Inr v, h'), k)"
    "k \<le> length (getLayers sample_utils sample_heap [1, 2, 3]) + 2 * length [1::nat, 2, 3]"
    by blast
  from a(1) have "k = 6" by (simp add: sample_run)
  with a(2) have first: "(6::nat) \<le> length sample_layers + 2 * length [1::nat, 2, 3]"
    by (simp only: sample_layers_of)
  have selN: "getSelectedNode sample_utils_new_layer sample_heap [1, 2, 3] = Some 2"
    by (simp add: sample_utils_new_layer_def sample_utils_def sample_heap_def sample_node_def)
  have nodesN: "[1, 2, 3]
      = filterKNodes sample_utils_new_layer sample_heap (children (sample_heap 0))"
    by (simp add: sample_utils_new_layer_def sample_utils_def sample_heap_def sample_node_def)
  have layersN: "getLayers sample_utils_new_layer sample_heap [1, 2, 3] = sample_layers"
    by (simp add: sample_utils_new_layer_def sample_utils_def)
  have neN: "getLayers sample_utils_new_layer sample_heap [1, 2, 3] \<noteq> []"
    unfolding layersN by (simp add: sample_layers_def)
  have resN: "getNodesOfLayer sample_utils_new_layer
        (hier_heap sample_utils_new_layer sample_heap [1, 2, 3] 0)
        (getLayerOfNode sample_utils_new_layer sample_heap s [1, 2, 3]
           (getLayers sample_utils_new_layer sample_heap [1, 2, 3])) [1, 2, 3] = []"
    for s
    by (simp add: sample_utils_new_layer_def sample_utils_def sample_heap_def sample_node_def
        sample_layers_def hier_heap_def set_hier_bounds_def)
  have lN: "length (getNodesOfLayer sample_utils_new_layer
        (hier_heap sample_utils_new_layer sample_heap [1, 2, 3] 0)
        (getLayerOfNode sample_utils_new_layer sample_heap s [1, 2, 3]
           (getLayers sample_utils_new_layer sample_heap [1, 2, 3])) [1, 2, 3])
      \<le> length [1::nat, 2, 3]"
    for s
    using len
    by (simp add: sample_utils_new_layer_def sample_utils_def del: filter.simps length_filter_le)
  from renderInteractiveLayout_returns [of "[1, 2, 3]" sample_utils_new_layer sample_heap 0,
      OF nodesN neN resN lN]
  obtain vN hN kN where b: "renderInteractiveLayout_run sample_utils_new_layer sample_heap 0
        = Some ((Inr vN, hN), kN)"
    "kN \<le> length (getLayers sample_utils_new_layer sample_heap [1, 2, 3])
            + 2 * length [1::nat, 2, 3]"
    by blast
  from b(1) have "kN = 5" by (simp add: sample_run_new_layer)
  with b(2) have second: "(5::nat) \<le> length sample_layers + 2 * length [1::nat, 2, 3]"
    by (simp only: layersN)
  from first second show ?thesis
    by (simp only: sample_run sample_run_new_layer simp_thms)
qed

text \<open>
  C10. When a node of the list is selected and there is a layer, \<open>renderLayer\<close> writes two
  fields of the root and nothing else: \<open>hierHeight\<close> becomes the root's height, and
  \<open>hierWidth\<close> becomes the rightmost x coordinate (the last layer's \<open>rightX\<close>, with that
  layer's width added when the new empty last layer is shown) minus the first layer's
  \<open>leftX\<close> plus 10. Every other field of the root keeps its value, and so does every other
  object of the heap, the nodes of the list among them (the root is not one of them).
\<close>

theorem renderLayer_sets_hier_bounds:
  assumes sel: "getSelectedNode U h nodes = Some s"
    and layers: "layers = getLayers U h nodes" "layers \<noteq> []"
    and lastLNodes: "lastLNodes = getNodesOfLayer U h (int (length layers) - 1) nodes"
    and rt: "rt \<notin> set nodes"
  shows "snd (renderLayer U h nodes rt) rt =
           (h rt)\<lparr>hierHeight := height (sizeK (h rt)),
                   hierWidth :=
                     (if shows_new_layer h lastLNodes
                      then rightX (last layers) + rightX (last layers) - leftX (last layers)
                      else rightX (last layers))
                     - leftX (hd layers) + 10\<rparr>
         \<and> (\<forall>r. r \<noteq> rt \<longrightarrow> snd (renderLayer U h nodes rt) r = h r)
         \<and> (\<forall>n \<in> set nodes. snd (renderLayer U h nodes rt) n = h n)"
proof -
  have "snd (renderLayer U h nodes rt) = hier_heap U h nodes rt"
    using renderLayer_heap [OF sel] layers by simp
  then show ?thesis
    using rt unfolding hier_heap_def set_hier_bounds_def layers(1) lastLNodes
    by auto
qed

theorem renderLayer_sets_hier_bounds_witness:
  "snd (renderLayer sample_utils sample_heap [1, 2, 3] 0) 0 =
      (sample_heap 0)\<lparr>hierHeight := 100, hierWidth := 50\<rparr>
   \<and> snd (renderLayer sample_utils sample_heap [1, 2, 3] 0) 1 = sample_heap 1
   \<and> snd (renderLayer sample_utils sample_heap [1, 2, 3] 0) 2 = sample_heap 2
   \<and> snd (renderLayer sample_utils sample_heap [1, 2, 3] 0) 3 = sample_heap 3"
proof -
  have l: "sample_layers = getLayers sample_utils sample_heap [1, 2, 3]" "sample_layers \<noteq> []"
    by (simp_all add: sample_layers_of) (simp add: sample_layers_def)
  have n: "[3] = getNodesOfLayer sample_utils sample_heap (int (length sample_layers) - 1) [1, 2, 3]"
    by (simp add: sample_utils_def sample_heap_def sample_node_def sample_layers_def)
  have r: "(0::nat) \<notin> set [1, 2, 3]" by simp
  from renderLayer_sets_hier_bounds [OF sample_selected l n r]
  show ?thesis
    by (simp add: shows_new_layer_def sample_layers_def sample_heap_def sample_node_def)
qed

text \<open>
  C8, amended. \<open>renderConstraints\<close> splits on the two constraints, with
  \<open>x\<close> the node's \<open>hierWidth\<close> when that is not 0 and the width of its size otherwise:
  both set, the group holds a lock at \<open>(x, 0)\<close>; only the layer constraint set, it holds the
  group of a lock at \<open>(x + 2, 0 - 2)\<close> and an arrow with flag \<open>False\<close> at
  \<open>(x + 2 - 2.15, 0 - 2 + 2.6)\<close>; only the position constraint set, the group of a lock at
  \<open>(x + 2, 0 - 2)\<close> and an arrow with flag \<open>True\<close> at \<open>(x + 2 + 0.1, 0 - 2 + 2.5)\<close>;
  neither set, the result is the empty group. The lock is at \<open>x\<close> only when both constraints
  are set, and at \<open>x + 2\<close> in the two icons with an arrow.
\<close>

theorem renderConstraints_cases:
  "(layerCons node \<noteq> -1 \<and> posCons node \<noteq> -1 \<longrightarrow>
      renderConstraints node = G [G [], Lock (constraint_x node) 0])
   \<and> (layerCons node \<noteq> -1 \<and> posCons node = -1 \<longrightarrow>
      renderConstraints node =
        G [G [], G [Text '' '', Lock (constraint_x node + 2) (0 - 2),
                    Arrow (constraint_x node + 2 - 2.15) (0 - 2 + 2.6) False]])
   \<and> (layerCons node = -1 \<and> posCons node \<noteq> -1 \<longrightarrow>
      renderConstraints node =
        G [G [], G [Text '' '', Lock (constraint_x node + 2) (0 - 2),
                    Arrow (constraint_x node + 2 + 0.1) (0 - 2 + 2.5) True]])
   \<and> (layerCons node = -1 \<and> posCons node = -1 \<longrightarrow> renderConstraints node = G [])"
  by (simp add: renderConstraints_def constraint_x_def layerCons_icon_def posCons_icon_def Let_def)

theorem renderConstraints_cases_witness:
  "layerCons locked_node \<noteq> -1 \<and> posCons locked_node = -1
   \<and> renderConstraints locked_node =
        G [G [], G [Text '' '', Lock 7 (-2), Arrow 4.85 0.6 False]]
   \<and> layerCons (locked_node\<lparr>posCons := 3\<rparr>) \<noteq> -1 \<and> posCons (locked_node\<lparr>posCons := 3\<rparr>) \<noteq> -1
   \<and> renderConstraints (locked_node\<lparr>posCons := 3\<rparr>) = G [G [], Lock 5 0]
   \<and> layerCons (locked_node\<lparr>layerCons := -1, posCons := 3, hierWidth := 0\<rparr>) = -1
   \<and> renderConstraints (locked_node\<lparr>layerCons := -1, posCons := 3, hierWidth := 0\<rparr>) =
        G [G [], G [Text '' '', Lock 10 (-2), Arrow 10.1 0.5 True]]
   \<and> renderConstraints (locked_node\<lparr>layerCons := -1\<rparr>) = G []"
  using renderConstraints_cases [of locked_node]
    renderConstraints_cases [of "locked_node\<lparr>posCons := 3\<rparr>"]
    renderConstraints_cases [of "locked_node\<lparr>layerCons := -1, posCons := 3, hierWidth := 0\<rparr>"]
    renderConstraints_cases [of "locked_node\<lparr>layerCons := -1\<rparr>"]
  by (simp add: locked_node_def sample_node_def constraint_x_def)

text \<open>
  C8 as first stated puts every icon at \<open>x\<close>. On a node with only a layer constraint and
  \<open>hierWidth = 5\<close> the lock of the icon is at \<open>7\<close>, not at \<open>hierWidth\<close>.
\<close>

theorem renderConstraints_icon_x_counterexample:
  "layerCons locked_node \<noteq> -1 \<and> posCons locked_node = -1
   \<and> hierWidth locked_node \<noteq> 0
   \<and> hierWidth locked_node = 5
   \<and> lock_xs (renderConstraints locked_node) = [7]
   \<and> lock_xs (renderConstraints locked_node) \<noteq> [hierWidth locked_node]"
  by (simp add: locked_node_def sample_node_def renderConstraints_def layerCons_icon_def Let_def)

section \<open>The diagram manager: properties\<close>

lemma drawDiagram_entry: "DrawDiagram u \<in> set (drawDiagram B uri) \<longleftrightarrow> u = uri"
  by (auto simp: drawDiagram_def manager_open_def Let_def
      split: promise.splits DiagramWidget.splits)

text \<open>
  C1, amended. On options for which \<^verbatim>\<open>DiagramWidgetOptions.is\<close> returns a falsy value and
  \<^verbatim>\<open>JSON.stringify\<close> returns, \<open>createWidget\<close> raises an \<^verbatim>\<open>Error\<close> whose message is the fixed
  prefix followed by what \<^verbatim>\<open>JSON.stringify\<close> gave for the options (the text \<^verbatim>\<open>undefined\<close> when
  it gave \<^verbatim>\<open>undefined\<close>). On options for which it returns a truthy value, the registry holds
  a configuration for the options' diagram type and that configuration's
  \<^verbatim>\<open>createContainer\<close> returns, \<open>createWidget\<close> raises nothing and returns a new
  \<^verbatim>\<open>KeithDiagramWidget\<close>, built from the options, the client id \<^verbatim>\<open>keith-diagram\<close>, the
  container made for \<^verbatim>\<open>keith-diagram_sprotty\<close> and the manager's connector. An exception of
  \<^verbatim>\<open>DiagramWidgetOptions.is\<close>, of the read of the diagram type, of \<^verbatim>\<open>JSON.stringify\<close>, of the
  registry or of \<^verbatim>\<open>createContainer\<close> is raised by \<open>createWidget\<close> as it is, and a diagram type
  without a configuration is a \<^verbatim>\<open>TypeError\<close>.
\<close>

theorem createWidget_checks_options:
  "(is_DiagramWidgetOptions E options = Inr False \<longrightarrow>
      (\<forall>json. JSON_stringify E options = Inr json \<longrightarrow>
         createWidget E options =
           Inl (Error (''DiagramWidgetFactory needs DiagramWidgetOptions but got ''
                  @ js_to_string json)))
      \<and> (\<forall>e. JSON_stringify E options = Inl e \<longrightarrow> createWidget E options = Inl e))
   \<and> (is_DiagramWidgetOptions E options = Inr True \<longrightarrow>
      (\<forall>t config diContainer.
         options_diagramType E options = Inr t \<longrightarrow>
         registry_get E t = Inr (Some config) \<longrightarrow>
         createContainer E config ''keith-diagram_sprotty'' = Inr diContainer \<longrightarrow>
         createWidget E options =
           Inr \<lparr>widget_options = options, widget_clientId = ''keith-diagram'',
                widget_diContainer = diContainer, widget_connector = diagramConnector E\<rparr>)
      \<and> (\<forall>e. options_diagramType E options = Inl e \<longrightarrow> createWidget E options = Inl e)
      \<and> (\<forall>t e. options_diagramType E options = Inr t \<longrightarrow> registry_get E t = Inl e \<longrightarrow>
             createWidget E options = Inl e)
      \<and> (\<forall>t. options_diagramType E options = Inr t \<longrightarrow> registry_get E t = Inr None \<longrightarrow>
             createWidget E options = Inl TypeError)
      \<and> (\<forall>t config e.
             options_diagramType E options = Inr t \<longrightarrow>
             registry_get E t = Inr (Some config) \<longrightarrow>
             createContainer E config ''keith-diagram_sprotty'' = Inl e \<longrightarrow>
             createWidget E options = Inl e))
   \<and> (\<forall>e. is_DiagramWidgetOptions E options = Inl e \<longrightarrow> createWidget E options = Inl e)"
  by (simp add: createWidget_def createClientId_def DIAGRAM_TYPE_def)

theorem createWidget_checks_options_witness:
  "is_DiagramWidgetOptions sample_env (SBool True) = Inr False
   \<and> JSON_stringify sample_env (SBool True) = Inr (Some ''true'')
   \<and> createWidget sample_env (SBool True) =
       Inl (Error ''DiagramWidgetFactory needs DiagramWidgetOptions but got true'')
   \<and> is_DiagramWidgetOptions sample_env SComplete = Inr True
   \<and> createWidget sample_env SComplete =
       Inr \<lparr>widget_options = SComplete,
            widget_clientId = ''keith-diagram'',
            widget_diContainer = ''keith-config/keith-diagram_sprotty'',
            widget_connector = 7\<rparr>
   \<and> is_DiagramWidgetOptions sample_env SNull = Inl TypeError
   \<and> createWidget sample_env SNull = Inl TypeError"
proof -
  have a: "is_DiagramWidgetOptions sample_env (SBool True) = Inr False"
    and a': "JSON_stringify sample_env (SBool True) = Inr (Some ''true'')"
    and b: "is_DiagramWidgetOptions sample_env SComplete = Inr True"
    and b1: "options_diagramType sample_env SComplete = Inr (Some ''keith-diagram'')"
    and b2: "registry_get sample_env (Some ''keith-diagram'') = Inr (Some ''keith-config'')"
    and b3: "createContainer sample_env ''keith-config'' ''keith-diagram_sprotty''
               = Inr ''keith-config/keith-diagram_sprotty''"
    and b4: "diagramConnector sample_env = 7"
    and c: "is_DiagramWidgetOptions sample_env SNull = Inl TypeError"
    by (simp_all add: sample_env_def)
  from a a' createWidget_checks_options [of sample_env "SBool True"]
  have "createWidget sample_env (SBool True) =
       Inl (Error ''DiagramWidgetFactory needs DiagramWidgetOptions but got true'')"
    by (simp add: js_to_string_def)
  moreover from b b1 b2 b3 b4 createWidget_checks_options [of sample_env SComplete]
  have "createWidget sample_env SComplete =
       Inr \<lparr>widget_options = SComplete,
            widget_clientId = ''keith-diagram'',
            widget_diContainer = ''keith-config/keith-diagram_sprotty'',
            widget_connector = 7\<rparr>"
    by simp
  moreover from c createWidget_checks_options [of sample_env SNull]
  have "createWidget sample_env SNull = Inl TypeError"
    by simp
  ultimately show ?thesis using a a' b c by simp
qed

text \<open>
  C1 as first stated has every options that is no \<^verbatim>\<open>DiagramWidgetOptions\<close> end in the
  \<^verbatim>\<open>Error\<close> with the fixed prefix. The circular object is none, and \<^verbatim>\<open>JSON.stringify\<close>
  raises a \<^verbatim>\<open>TypeError\<close> on it before the \<^verbatim>\<open>Error\<close> is built; on \<^verbatim>\<open>undefined\<close>, the options
  left out, \<^verbatim>\<open>DiagramWidgetOptions.is\<close> itself raises a \<^verbatim>\<open>TypeError\<close>.
\<close>

theorem createWidget_options_counterexample:
  "is_DiagramWidgetOptions sample_env SCircular = Inr False
   \<and> createWidget sample_env SCircular = Inl TypeError
   \<and> is_DiagramWidgetOptions sample_env SUndefined \<noteq> Inr True
   \<and> createWidget sample_env SUndefined = Inl TypeError"
  by (simp add: createWidget_def sample_env_def)

text \<open>
  C3. \<open>onCurrentEditorChanged\<close> enters \<open>drawDiagram\<close> with a URI exactly when a widget of the
  manager's id exists, the editor widget is defined and the URI is its resource URI; it then
  does what \<open>drawDiagram\<close> does for that URI. In every other case it calls nothing: no
  widget is opened and none is drawn again.
\<close>

theorem onCurrentEditorChanged_draws_iff:
  "(\<forall>uri. DrawDiagram uri \<in> set (onCurrentEditorChanged B widgets editorWidget) \<longleftrightarrow>
          widgets \<noteq> [] \<and> (\<exists>ew. editorWidget = Some ew \<and> getResourceUri ew = Some uri))
   \<and> (\<forall>uri. widgets \<noteq> [] \<and> (\<exists>ew. editorWidget = Some ew \<and> getResourceUri ew = Some uri) \<longrightarrow>
          onCurrentEditorChanged B widgets editorWidget = drawDiagram B uri)
   \<and> (\<not> (widgets \<noteq> [] \<and> (\<exists>ew uri. editorWidget = Some ew \<and> getResourceUri ew = Some uri)) \<longrightarrow>
          onCurrentEditorChanged B widgets editorWidget = [])"
  by (auto simp: onCurrentEditorChanged_def pop_def drawDiagram_entry split: option.splits)

theorem onCurrentEditorChanged_draws_iff_witness:
  "onCurrentEditorChanged sample_base [0::nat] (Some \<lparr>getResourceUri = Some sample_uri\<rparr>) =
     [DrawDiagram sample_uri,
      SuperOpen sample_uri [''mode'' \<mapsto> JStr ''reveal''],
      DiagramOpened sample_uri,
      ReInitialize 1 sample_uri]
   \<and> onCurrentEditorChanged sample_base ([] :: nat list)
        (Some \<lparr>getResourceUri = Some sample_uri\<rparr>) = []
   \<and> onCurrentEditorChanged sample_base [0::nat] None = []
   \<and> onCurrentEditorChanged sample_base [0::nat] (Some \<lparr>getResourceUri = None\<rparr>) = []"
proof -
  have d: "drawDiagram sample_base sample_uri =
     [DrawDiagram sample_uri,
      SuperOpen sample_uri [''mode'' \<mapsto> JStr ''reveal''],
      DiagramOpened sample_uri,
      ReInitialize 1 sample_uri]"
    by (simp add: drawDiagram_def manager_open_def sample_base_def spread_def Let_def)
  from onCurrentEditorChanged_draws_iff
    [of sample_base "[0::nat]" "Some \<lparr>getResourceUri = Some sample_uri\<rparr>"]
  have "onCurrentEditorChanged sample_base [0::nat] (Some \<lparr>getResourceUri = Some sample_uri\<rparr>)
          = drawDiagram sample_base sample_uri"
    by simp
  moreover from onCurrentEditorChanged_draws_iff
    [of sample_base "[] :: nat list" "Some \<lparr>getResourceUri = Some sample_uri\<rparr>"]
  have "onCurrentEditorChanged sample_base ([] :: nat list)
          (Some \<lparr>getResourceUri = Some sample_uri\<rparr>) = []"
    by simp
  moreover from onCurrentEditorChanged_draws_iff [of sample_base "[0::nat]" None]
  have "onCurrentEditorChanged sample_base [0::nat] None = []"
    by simp
  moreover from onCurrentEditorChanged_draws_iff
    [of sample_base "[0::nat]" "Some \<lparr>getResourceUri = None\<rparr>"]
  have "onCurrentEditorChanged sample_base [0::nat] (Some \<lparr>getResourceUri = None\<rparr>) = []"
    by simp
  ultimately show ?thesis using d by simp
qed

text \<open>
  C5. \<open>open\<close> calls the base class's \<open>open\<close> once, with the URI and with options whose
  \<open>mode\<close> is \<open>reveal\<close> and whose other properties are those of the input; it returns the
  promise of that call; and it fires \<open>onDiagramOpened\<close> with the URI, once, exactly when
  that promise is fulfilled.
\<close>

theorem open_reveals_and_notifies:
  "\<exists>opts. manager_open B uri input =
       (super_open B uri opts,
        SuperOpen uri opts #
          (if \<exists>w. super_open B uri opts = Fulfilled w then [DiagramOpened uri] else []))
     \<and> opts ''mode'' = Some (JStr ''reveal'')
     \<and> (\<forall>k. k \<noteq> ''mode'' \<longrightarrow> opts k = spread input k)"
  by (auto simp: manager_open_def Let_def split: promise.splits)

theorem open_reveals_and_notifies_witness:
  "manager_open sample_base sample_uri
       (Some [''mode'' \<mapsto> JStr ''activate'', ''widgetOptions'' \<mapsto> JNull])
     = (Fulfilled (KeithWidget 1),
        [SuperOpen sample_uri [''mode'' \<mapsto> JStr ''reveal'', ''widgetOptions'' \<mapsto> JNull],
         DiagramOpened sample_uri])"
proof -
  let ?input = "Some [''mode'' \<mapsto> JStr ''activate'', ''widgetOptions'' \<mapsto> JNull]"
  from open_reveals_and_notifies [of sample_base sample_uri ?input]
  obtain opts where o: "manager_open sample_base sample_uri ?input =
       (super_open sample_base sample_uri opts,
        SuperOpen sample_uri opts #
          (if \<exists>w. super_open sample_base sample_uri opts = Fulfilled w
           then [DiagramOpened sample_uri] else []))"
     "opts ''mode'' = Some (JStr ''reveal'')"
     "\<forall>k. k \<noteq> ''mode'' \<longrightarrow> opts k = spread ?input k"
    by blast
  have "opts k = [''mode'' \<mapsto> JStr ''reveal'', ''widgetOptions'' \<mapsto> JNull] k" for k
    using o(2,3) by (cases "k = ''mode''") (simp_all add: spread_def)
  then have "opts = [''mode'' \<mapsto> JStr ''reveal'', ''widgetOptions'' \<mapsto> JNull]" by blast
  with o(1) show ?thesis by (simp add: sample_base_def)
qed

text \<open>
  C6. \<open>createWidgetOptions\<close> returns the options of the base class with \<open>label\<close> set to
  \<open>Diagram\<close>; every other property is the base class's.
\<close>

theorem createWidgetOptions_label_only:
  "createWidgetOptions B uri options ''label'' = Some (JStr ''Diagram'')
   \<and> (\<forall>k. k \<noteq> ''label'' \<longrightarrow>
         createWidgetOptions B uri options k = super_createWidgetOptions B uri options k)"
  by (simp add: createWidgetOptions_def)

theorem createWidgetOptions_label_only_witness:
  "createWidgetOptions sample_base sample_uri None ''label'' = Some (JStr ''Diagram'')
   \<and> ''iconClass'' \<noteq> ''label''
   \<and> createWidgetOptions sample_base sample_uri None ''iconClass''
       = Some (JStr ''fa fa-square-o'')
   \<and> super_createWidgetOptions sample_base sample_uri None ''label''
       = Some (JStr ''model.sctx'')"
  using createWidgetOptions_label_only [of sample_base sample_uri None]
  by (simp add: sample_base_def)

section \<open>The VS Code extension: properties\<close>

lemma endsWith_iff: "endsWith s ending \<longleftrightarrow> (\<exists>pre. s = pre @ ending)"
proof
  assume "endsWith s ending"
  then have "s = take (length s - length ending) s @ ending"
    by (metis append_take_drop_id endsWith_def)
  then show "\<exists>pre. s = pre @ ending" ..
next
  assume "\<exists>pre. s = pre @ ending"
  then show "endsWith s ending" by (auto simp: endsWith_def)
qed

text \<open>
  C4. Once a \<open>KLighDExtension\<close> is constructed with options holding a language client,
  \<open>activateLanguageClient\<close> returns that client, whatever the context it is given; the call
  the base class makes while it is constructed receives it too.
\<close>

theorem activateLanguageClient_returns_client:
  "activateLanguageClient (fst (new_KLighDExtension st ctx options)) ctx' = Some (lsClient options)
   \<and> languageClient (snd (new_KLighDExtension st ctx options)) = Some (lsClient options)"
  by (simp add: new_KLighDExtension_def activateLanguageClient_def Let_def)

text \<open>
  The client is a property of the class: a second construction replaces it for every
  instance.
\<close>

lemma static_client_is_shared:
  "activateLanguageClient
     (fst (new_KLighDExtension (fst (new_KLighDExtension st ctx1 options1)) ctx2 options2)) ctx'
   = Some (lsClient options2)"
  by (simp add: new_KLighDExtension_def activateLanguageClient_def Let_def)

text \<open>
  C9. \<open>getDiagramType\<close> of an extension returns the diagram type exactly when the first
  command argument is a \<open>Uri\<close> whose path ends with one of the file endings the extension was
  constructed with; for every other list of arguments, the empty one among them, it returns
  \<^verbatim>\<open>undefined\<close>.
\<close>

theorem getDiagramType_supported_only:
  "getDiagramType diagramType (snd (new_KLighDExtension st ctx options)) commandArgs =
     (if \<exists>u rest. commandArgs = UriArg u # rest
            \<and> (\<exists>ending \<in> set (supportedFileEnding options). \<exists>pre. path u = pre @ ending)
      then Some diagramType else None)"
  by (auto simp: getDiagramType_def pathHasSupportedFileEnding_def list_ex_iff endsWith_iff
      new_KLighDExtension_def Let_def split: list.splits command_arg.splits)

theorem getDiagramType_supported_only_witness:
  "getDiagramType ''keith-diagram''
      (snd (new_KLighDExtension \<lparr>static_lsClient = None\<rparr> () sample_options))
      [UriArg \<lparr>path = ''/home/user/model.sctx''\<rparr>, OtherArg (1::nat)] = Some ''keith-diagram''
   \<and> getDiagramType ''keith-diagram''
      (snd (new_KLighDExtension \<lparr>static_lsClient = None\<rparr> () sample_options))
      [UriArg \<lparr>path = ''/home/user/notes.txt''\<rparr> :: nat command_arg] = None
   \<and> getDiagramType ''keith-diagram''
      (snd (new_KLighDExtension \<lparr>static_lsClient = None\<rparr> () sample_options))
      [OtherArg (1::nat)] = None
   \<and> getDiagramType ''keith-diagram''
      (snd (new_KLighDExtension \<lparr>static_lsClient = None\<rparr> () sample_options))
      ([] :: nat command_arg list) = None"
proof -
  let ?ext = "snd (new_KLighDExtension \<lparr>static_lsClient = None\<rparr> () sample_options)"
  have e: "''/home/user/model.sctx'' = ''/home/user/model'' @ ''.sctx''" by simp
  have "\<exists>u rest. [UriArg \<lparr>path = ''/home/user/model.sctx''\<rparr>, OtherArg (1::nat)] = UriArg u # rest
            \<and> (\<exists>ending \<in> set (supportedFileEnding sample_options). \<exists>pre. path u = pre @ ending)"
    unfolding sample_options_def using e by fastforce
  then have "getDiagramType ''keith-diagram'' ?ext
      [UriArg \<lparr>path = ''/home/user/model.sctx''\<rparr>, OtherArg (1::nat)] = Some ''keith-diagram''"
    using getDiagramType_supported_only [of "''keith-diagram''" "\<lparr>static_lsClient = None\<rparr>" "()"
        sample_options "[UriArg \<lparr>path = ''/home/user/model.sctx''\<rparr>, OtherArg (1::nat)]"]
    by presburger
  moreover have "getDiagramType ''keith-diagram'' ?ext
      [UriArg \<lparr>path = ''/home/user/notes.txt''\<rparr> :: nat command_arg] = None"
    by (simp add: getDiagramType_def pathHasSupportedFileEnding_def sample_options_def
        new_KLighDExtension_def endsWith_def Let_def)
  moreover have "getDiagramType ''keith-diagram'' ?ext [OtherArg (1::nat)] = None"
    "getDiagramType ''keith-diagram'' ?ext ([] :: nat command_arg list) = None"
    by (simp_all add: getDiagramType_def)
  ultimately show ?thesis by simp
qed

end
